theory Spec2Isabelle
  imports Complex_Main "HOL-Library.Sublist" "HOL-Library.Word"
begin

section \<open>The script \<^verbatim>\<open>topic_modelling.py\<close>\<close>

text \<open>
  The repository is one Python script. It drives the \<^verbatim>\<open>metapy\<close> bindings through a
  fixed sequence of calls and prints diagnostics in between. The library is not part of
  the repository, so the script is modelled against an arbitrary library: every
  operation the script invokes is a field of the record \<open>env\<close>, a function of the
  external world \<open>'w\<close> (index files, the model artifact, the clock) that returns the new
  world and either a result or the exception it raised.

  Library objects (the forward index, the dataset, the inference engine, the loaded
  model, the scorer, term ids, scores, term strings, topic distributions) are opaque to
  the script, which only passes them on; they are values of one type \<open>'v\<close>, as in a
  dynamically typed program.
\<close>

subsection \<open>Exceptions, calls and the observable trace\<close>

text \<open>
  Python exceptions: \<^verbatim>\<open>sys.exit(1)\<close> raises \<^verbatim>\<open>SystemExit(1)\<close>, \<^verbatim>\<open>sys.argv[0]\<close> on an empty
  list raises \<^verbatim>\<open>IndexError\<close>, everything else is an exception object \<open>'e\<close> of the library.
\<close>

datatype 'e exn = SystemExit int | IndexError | Other 'e

text \<open>
  One constructor per call site kind, with the arguments the script passes. Keyword
  arguments the script leaves out (the \<^verbatim>\<open>k\<close> of \<^verbatim>\<open>top_k\<close>, a seed) do not appear: the
  library's defaults apply. The scorer of \<^verbatim>\<open>top_k\<close> is optional.
\<close>

datatype 'v call =
    MakeForwardIndex string
  | NewDataset 'v
  | NewLDACollapsedVB 'v int real real
  | Run 'v int
  | Save 'v string
  | NewTopicModel string
  | TopK 'v int "'v option"
  | TermText 'v 'v
  | NewBLTermScorer 'v
  | TopicDistribution 'v int
  | LogToStderr
  | GetVersion
  | TimeTime

text \<open>
  What \<^verbatim>\<open>print\<close> is given: a string literal, a list of (term text, score) pairs, a
  library object, or the line \<^verbatim>\<open>Elapsed: {} seconds\<close> with its number.
\<close>

datatype 'v printed =
    Text string
  | Pairs "('v \<times> 'v) list"
  | Object 'v
  | Elapsed real

text \<open>
  The trace records, in order, every line printed, every library operation invoked and
  every exception raised. It is a ghost variable: the script does not read it.
\<close>

datatype ('v, 'e) event =
    Print "'v printed"
  | Call "'v call"
  | Raise "'e exn"

record ('v, 'e, 'w) state =
  world :: 'w
  trace :: "('v, 'e) event list"

definition init :: "'w \<Rightarrow> ('v, 'e, 'w) state" where
  "init w = \<lparr>world = w, trace = []\<rparr>"

subsection \<open>The library the script is run against\<close>

type_synonym ('a, 'e, 'w) op = "'w \<Rightarrow> ('e exn + 'a) \<times> 'w"

record ('v, 'e, 'w) env =
  make_forward_index :: "string \<Rightarrow> ('v, 'e, 'w) op"
  Dataset :: "'v \<Rightarrow> ('v, 'e, 'w) op"
  LDACollapsedVB :: "'v \<Rightarrow> int \<Rightarrow> real \<Rightarrow> real \<Rightarrow> ('v, 'e, 'w) op"
  run :: "'v \<Rightarrow> int \<Rightarrow> (unit, 'e, 'w) op"
  save :: "'v \<Rightarrow> string \<Rightarrow> (unit, 'e, 'w) op"
  TopicModel :: "string \<Rightarrow> ('v, 'e, 'w) op"
  top_k :: "'v \<Rightarrow> int \<Rightarrow> 'v option \<Rightarrow> (('v \<times> 'v) list, 'e, 'w) op"
  term_text :: "'v \<Rightarrow> 'v \<Rightarrow> ('v, 'e, 'w) op"
  BLTermScorer :: "'v \<Rightarrow> ('v, 'e, 'w) op"
  topic_distribution :: "'v \<Rightarrow> int \<Rightarrow> ('v, 'e, 'w) op"
  log_to_stderr :: "(unit, 'e, 'w) op"
  version :: "('v, 'e, 'w) op"
  time :: "(real, 'e, 'w) op"

subsection \<open>Statements\<close>

text \<open>
  A statement maps the state to the new state and either a value or the exception that
  ended it. \<open>and_then\<close> is Python's sequencing: an exception of the first statement
  ends the sequence, since the script has no \<^verbatim>\<open>try\<close>.
\<close>

type_synonym ('a, 'v, 'e, 'w) stmt =
  "('v, 'e, 'w) state \<Rightarrow> ('e exn + 'a) \<times> ('v, 'e, 'w) state"

definition and_then ::
  "('a, 'v, 'e, 'w) stmt \<Rightarrow> ('a \<Rightarrow> ('b, 'v, 'e, 'w) stmt) \<Rightarrow> ('b, 'v, 'e, 'w) stmt" where
  "and_then m f s = (case m s of (Inl e, s') \<Rightarrow> (Inl e, s') | (Inr x, s') \<Rightarrow> f x s')"

definition return :: "'a \<Rightarrow> ('a, 'v, 'e, 'w) stmt" where
  "return x s = (Inr x, s)"

definition print :: "'v printed \<Rightarrow> (unit, 'v, 'e, 'w) stmt" where
  "print p s = (Inr (), s\<lparr>trace := trace s @ [Print p]\<rparr>)"

definition raise :: "'e exn \<Rightarrow> ('a, 'v, 'e, 'w) stmt" where
  "raise e s = (Inl e, s\<lparr>trace := trace s @ [Raise e]\<rparr>)"

text \<open>Invoking a library operation: the call is recorded, the world is the one the
  operation leaves, and an exception it raises is the statement's.\<close>

definition invoke :: "'v call \<Rightarrow> ('a, 'e, 'w) op \<Rightarrow> ('a, 'v, 'e, 'w) stmt" where
  "invoke c f s =
     (case f (world s) of
        (Inl e, w') \<Rightarrow> (Inl e, s\<lparr>world := w', trace := trace s @ [Call c, Raise e]\<rparr>)
      | (Inr x, w') \<Rightarrow> (Inr x, s\<lparr>world := w', trace := trace s @ [Call c]\<rparr>))"

text \<open>
  The list comprehension \<^verbatim>\<open>[(fidx.term_text(pr[0]), pr[1]) for pr in prs]\<close>: one
  \<^verbatim>\<open>term_text\<close> call per pair, in order.
\<close>

fun term_texts ::
  "('v, 'e, 'w) env \<Rightarrow> 'v \<Rightarrow> ('v \<times> 'v) list \<Rightarrow> (('v \<times> 'v) list, 'v, 'e, 'w) stmt" where
  "term_texts lib fidx [] = return []"
| "term_texts lib fidx (pr # prs) =
     and_then (invoke (TermText fidx (fst pr)) (term_text lib fidx (fst pr))) (\<lambda>t.
     and_then (term_texts lib fidx prs) (\<lambda>rest.
     return ((t, snd pr) # rest)))"

subsection \<open>\<^verbatim>\<open>determine_topics\<close>\<close>

definition determine_topics :: "('v, 'e, 'w) env \<Rightarrow> string \<Rightarrow> (unit, 'v, 'e, 'w) stmt" where
  "determine_topics lib cfg =
     and_then (print (Text ''making forward index ...'')) (\<lambda>_.
     and_then (invoke (MakeForwardIndex cfg) (make_forward_index lib cfg)) (\<lambda>fidx.
     and_then (print (Text ''creating dset ...'')) (\<lambda>_.
     and_then (invoke (NewDataset fidx) (Dataset lib fidx)) (\<lambda>dset.
     and_then (print (Text ''creating lda_inf ...'')) (\<lambda>_.
     and_then (invoke (NewLDACollapsedVB dset 2 1 (1 / 100))
                 (LDACollapsedVB lib dset 2 1 (1 / 100))) (\<lambda>lda_inf.
     and_then (print (Text ''1000 iterations of lda_inf ...'')) (\<lambda>_.
     and_then (invoke (Run lda_inf 10) (run lib lda_inf 10)) (\<lambda>_.
     and_then (print (Text ''creating lda-cvb0 ...'')) (\<lambda>_.
     and_then (invoke (Save lda_inf ''lda-cvb0'') (save lib lda_inf ''lda-cvb0'')) (\<lambda>_.
     and_then (print (Text ''forming model ...'')) (\<lambda>_.
     and_then (invoke (NewTopicModel ''lda-cvb0'') (TopicModel lib ''lda-cvb0'')) (\<lambda>model.
     and_then (print (Text ''topic id = 0 ...'')) (\<lambda>_.
     and_then (invoke (TopK model 0 None) (top_k lib model 0 None)) (\<lambda>_.
     and_then (print (Text ''map term id 0 to strings ...'')) (\<lambda>_.
     and_then (invoke (TopK model 0 None) (top_k lib model 0 None)) (\<lambda>prs.
     and_then (term_texts lib fidx prs) (\<lambda>xs.
     and_then (print (Pairs xs)) (\<lambda>_.
     and_then (print (Text ''map term id 1 to strings ...'')) (\<lambda>_.
     and_then (invoke (TopK model 1 None) (top_k lib model 1 None)) (\<lambda>prs.
     and_then (term_texts lib fidx prs) (\<lambda>xs.
     and_then (print (Pairs xs)) (\<lambda>_.
     and_then (print (Text ''create scorer ...'')) (\<lambda>_.
     and_then (invoke (NewBLTermScorer model) (BLTermScorer lib model)) (\<lambda>scorer.
     and_then (print (Text ''build fidx using BL Term Scorer, topic 0 ...'')) (\<lambda>_.
     and_then (invoke (TopK model 0 (Some scorer)) (top_k lib model 0 (Some scorer))) (\<lambda>prs.
     and_then (term_texts lib fidx prs) (\<lambda>xs.
     and_then (print (Pairs xs)) (\<lambda>_.
     and_then (print (Text ''build fidx using BL Term Scorer, topic 1 ...'')) (\<lambda>_.
     and_then (invoke (TopK model 1 (Some scorer)) (top_k lib model 1 (Some scorer))) (\<lambda>prs.
     and_then (term_texts lib fidx prs) (\<lambda>xs.
     and_then (print (Pairs xs)) (\<lambda>_.
     and_then (invoke (TopicDistribution model 0) (topic_distribution lib model 0)) (\<lambda>d.
     and_then (print (Object d)) (\<lambda>_.
     and_then (invoke (TopicDistribution model 900) (topic_distribution lib model 900)) (\<lambda>d.
     print (Object d))))))))))))))))))))))))))))))))))))"

subsection \<open>The entry point\<close>

text \<open>
  Python's \<^verbatim>\<open>round(x, n)\<close> on the exact value of \<open>x\<close>: the nearest multiple of
  \<open>10 ^ -n\<close>, a tie going to the even one.
\<close>

definition round_half_even :: "real \<Rightarrow> int" where
  "round_half_even y =
     (let f = \<lfloor>y\<rfloor>; d = y - of_int f
      in if d < 1 / 2 then f else if 1 / 2 < d then f + 1 else if even f then f else f + 1)"

definition py_round :: "real \<Rightarrow> nat \<Rightarrow> real" where
  "py_round x n = of_int (round_half_even (x * 10 ^ n)) / 10 ^ n"

text \<open>\<^verbatim>\<open>sys.argv[0]\<close>: an \<^verbatim>\<open>IndexError\<close> on the empty list.\<close>

definition argv0 :: "string list \<Rightarrow> (string, 'v, 'e, 'w) stmt" where
  "argv0 argv = (case argv of [] \<Rightarrow> raise IndexError | a # _ \<Rightarrow> return a)"

text \<open>
  The block under \<^verbatim>\<open>if __name__ == '__main__'\<close>, as a function of \<^verbatim>\<open>sys.argv\<close>.
  \<^verbatim>\<open>metapy.__version__\<close> is an expression statement: the attribute is read and dropped.
\<close>

definition main :: "('v, 'e, 'w) env \<Rightarrow> string list \<Rightarrow> (unit, 'v, 'e, 'w) stmt" where
  "main lib argv =
     and_then (print (Text ''got to main!!'')) (\<lambda>_.
     and_then (if length argv \<noteq> 1
               then and_then (argv0 argv) (\<lambda>a.
                    and_then (print (Text (''Usage: '' @ a))) (\<lambda>_.
                    raise (SystemExit 1)))
               else return ()) (\<lambda>_.
     and_then (invoke LogToStderr (log_to_stderr lib)) (\<lambda>_.
     and_then (invoke GetVersion (version lib)) (\<lambda>_.
     and_then (print (Text ''calling determine_topics() method ...'')) (\<lambda>_.
     and_then (determine_topics lib ''moby_dick-config.toml'') (\<lambda>_.
     and_then (invoke TimeTime (time lib)) (\<lambda>start_time.
     and_then (invoke TimeTime (time lib)) (\<lambda>now.
     print (Elapsed (py_round (now - start_time) 4))))))))))"

text \<open>The exit status the interpreter reports for the outcome of the script.\<close>

fun exit_status :: "'e exn + unit \<Rightarrow> int" where
  "exit_status (Inr _) = 0"
| "exit_status (Inl (SystemExit n)) = n"
| "exit_status (Inl _) = 1"

subsection \<open>A stub library\<close>

text \<open>
  A small library to run the script on: the world is a clock that every operation but
  \<^verbatim>\<open>time.time\<close> advances by an hour, objects are numbers, every \<^verbatim>\<open>top_k\<close> answers two
  pairs, and the loaded model has \<open>ndocs\<close> documents: \<^verbatim>\<open>topic_distribution\<close> raises
  outside \<open>[0, ndocs)\<close>.
\<close>

definition tick :: "'a \<Rightarrow> ('a, string, real) op" where
  "tick x w = (Inr x, w + 3600)"

definition stub :: "int \<Rightarrow> (nat, string, real) env" where
  "stub ndocs =
     \<lparr>make_forward_index = (\<lambda>cfg. tick 1),
      Dataset = (\<lambda>fidx. tick 2),
      LDACollapsedVB = (\<lambda>dset k a b. tick 3),
      run = (\<lambda>lda n. tick ()),
      save = (\<lambda>lda path. tick ()),
      TopicModel = (\<lambda>path. tick 4),
      top_k = (\<lambda>model tid scorer. tick [(10, 70), (11, 30)]),
      term_text = (\<lambda>fidx t. tick (t + 100)),
      BLTermScorer = (\<lambda>model. tick 5),
      topic_distribution = (\<lambda>model d w.
        if 0 \<le> d \<and> d < ndocs then tick 6 w else (Inl (Other ''OutOfRangeError''), w)),
      log_to_stderr = tick (),
      version = tick 7,
      time = (\<lambda>w. (Inr w, w))\<rparr>"

text \<open>The stub library with an engine that takes a second per iteration.\<close>

definition counting_stub :: "(nat, string, real) env" where
  "counting_stub = (stub 1000)\<lparr>run := (\<lambda>lda n w. (Inr (), w + real_of_int n))\<rparr>"

subsection \<open>The operations a statement applies\<close>

text \<open>
  The same sequencing on the library's operations themselves, which act on the world and
  know no trace: \<open>op_then f k\<close> applies \<open>f\<close> and, unless it raised, applies \<open>k\<close> to its
  result in the world \<open>f\<close> left. \<open>outcome m\<close> is what the statement \<open>m\<close> answers and does to
  the world, the trace forgotten.
\<close>

definition op_return :: "'a \<Rightarrow> ('a, 'e, 'w) op" where
  "op_return x w = (Inr x, w)"

definition op_then :: "('a, 'e, 'w) op \<Rightarrow> ('a \<Rightarrow> ('b, 'e, 'w) op) \<Rightarrow> ('b, 'e, 'w) op" where
  "op_then f k w = (case f w of (Inl e, w') \<Rightarrow> (Inl e, w') | (Inr x, w') \<Rightarrow> k x w')"

text \<open>The \<^verbatim>\<open>term_text\<close> applications of the list comprehension, one per pair, in order.\<close>

fun term_text_ops ::
  "('v, 'e, 'w) env \<Rightarrow> 'v \<Rightarrow> ('v \<times> 'v) list \<Rightarrow> (('v \<times> 'v) list, 'e, 'w) op" where
  "term_text_ops lib fidx [] = op_return []"
| "term_text_ops lib fidx (pr # prs) =
     op_then (term_text lib fidx (fst pr)) (\<lambda>t.
     op_then (term_text_ops lib fidx prs) (\<lambda>rest.
     op_return ((t, snd pr) # rest)))"

definition outcome :: "('a, 'v, 'e, 'w) stmt \<Rightarrow> ('a, 'e, 'w) op" where
  "outcome m w = (fst (m (init w)), world (snd (m (init w))))"

text \<open>\<open>performs m f\<close>: from every state, the result of \<open>m\<close> and the world it leaves are those
  of the operation \<open>f\<close> applied to the world of the state.\<close>

definition performs :: "('a, 'v, 'e, 'w) stmt \<Rightarrow> ('a, 'e, 'w) op \<Rightarrow> bool" where
  "performs m f \<longleftrightarrow>
     (\<forall>s. fst (m s) = fst (f (world s)) \<and> world (snd (m s)) = snd (f (world s)))"

section \<open>Observations on traces\<close>

text \<open>The exceptions raised during a run, in order.\<close>

fun raised :: "('v, 'e) event list \<Rightarrow> 'e exn list" where
  "raised [] = []"
| "raised (Raise e # evs) = e # raised evs"
| "raised (_ # evs) = raised evs"

text \<open>The library calls of a run, in order.\<close>

fun calls :: "('v, 'e) event list \<Rightarrow> 'v call list" where
  "calls [] = []"
| "calls (Call c # evs) = c # calls evs"
| "calls (_ # evs) = calls evs"

text \<open>
  \<^verbatim>\<open>term_text\<close> is called once per pair that \<^verbatim>\<open>top_k\<close> returned, so the number of these
  calls depends on the library. All other calls are made a fixed number of times;
  \<open>stage_calls\<close> keeps those, and \<open>shape\<close> forgets the objects they were made on.
\<close>

fun per_term :: "'v call \<Rightarrow> bool" where
  "per_term (TermText _ _) = True"
| "per_term _ = False"

definition stage_calls :: "('v, 'e) event list \<Rightarrow> 'v call list" where
  "stage_calls evs = filter (\<lambda>c. \<not> per_term c) (calls evs)"

definition shape :: "('v, 'e) event list \<Rightarrow> unit call list" where
  "shape evs = map (map_call (\<lambda>_. ())) (stage_calls evs)"

fun is_run :: "('v, 'e) event \<Rightarrow> bool" where
  "is_run (Call (Run _ _)) = True"
| "is_run _ = False"

text \<open>A forward index is made from no other configuration file than \<open>cfg\<close>.\<close>

fun index_cfg_is :: "string \<Rightarrow> ('v, 'e) event \<Rightarrow> bool" where
  "index_cfg_is cfg (Call (MakeForwardIndex c)) = (c = cfg)"
| "index_cfg_is cfg _ = True"

subsection \<open>Properties of every run of a statement\<close>

text \<open>
  \<open>emits P m\<close>: from every state, \<open>m\<close> only appends to the trace, and \<open>P\<close> holds of its
  outcome and of the events it appended.
\<close>

definition emits ::
  "(('e exn + 'a) \<Rightarrow> ('v, 'e) event list \<Rightarrow> bool) \<Rightarrow> ('a, 'v, 'e, 'w) stmt \<Rightarrow> bool" where
  "emits P m \<longleftrightarrow> (\<forall>s. \<exists>evs. trace (snd (m s)) = trace s @ evs \<and> P (fst (m s)) evs)"

text \<open>An exception is the last event, and the only one raised; a normal return raised none.\<close>

definition propagated :: "('e exn + 'a) \<Rightarrow> ('v, 'e) event list \<Rightarrow> bool" where
  "propagated r evs =
     (case r of
        Inl e \<Rightarrow> \<exists>pre. evs = pre @ [Raise e] \<and> raised pre = []
      | Inr _ \<Rightarrow> raised evs = [])"

text \<open>The same, and the exception is the one of the library call just made.\<close>

definition call_failed :: "('e exn + 'a) \<Rightarrow> ('v, 'e) event list \<Rightarrow> bool" where
  "call_failed r evs =
     (case r of
        Inl e \<Rightarrow> \<exists>c pre. evs = pre @ [Call c, Raise e] \<and> raised pre = []
      | Inr _ \<Rightarrow> raised evs = [])"

text \<open>The calls made are an initial part of \<open>L\<close>, and all of \<open>L\<close> on a normal return.\<close>

definition follows :: "unit call list \<Rightarrow> ('e exn + 'a) \<Rightarrow> ('v, 'e) event list \<Rightarrow> bool" where
  "follows L r evs \<longleftrightarrow>
     prefix (shape evs) L \<and> (case r of Inl _ \<Rightarrow> True | Inr _ \<Rightarrow> shape evs = L)"

definition quiet ::
  "(('v, 'e) event \<Rightarrow> bool) \<Rightarrow> ('e exn + 'a) \<Rightarrow> ('v, 'e) event list \<Rightarrow> bool" where
  "quiet Q r evs \<longleftrightarrow> list_all Q evs"

text \<open>\<^verbatim>\<open>run\<close> is called at most once, with 10, right after the line that says 1000.\<close>

definition run_once :: "('e exn + 'a) \<Rightarrow> ('v, 'e) event list \<Rightarrow> bool" where
  "run_once r evs \<longleftrightarrow>
     list_all (\<lambda>ev. \<not> is_run ev) evs \<or>
     (\<exists>pre l post.
        evs = pre @ [Print (Text ''1000 iterations of lda_inf ...''), Call (Run l 10)] @ post \<and>
        list_all (\<lambda>ev. \<not> is_run ev) pre \<and> list_all (\<lambda>ev. \<not> is_run ev) post)"

section \<open>The components behind the library calls, as the specification describes them\<close>

text \<open>
  The script only calls the topic-model library; the library's code is not in the
  repository. The definitions of this section are written from the specification's
  description of the components (sections 3, 4.3, 4.4, 6 and 7), to state the properties
  that are about them. Floating-point numbers are real numbers here.
\<close>

text \<open>Modelled from the spec: the error taxonomy of section 7; the code that raises them
  is the library's and is not in the repository.\<close>

datatype error =
    IndexFormatError
  | InvalidHyperparameterError
  | OutOfRangeError
  | CorruptModelError
  | FileNotFoundError
  | InvalidModelError

text \<open>Modelled from the spec: the model of section 3, the matrices \<open>\<phi>\<close> (K by V) and
  \<open>\<theta>\<close> (D by K) with the dimensions K, D, V, which the artifact of section 6 holds as
  \<^verbatim>\<open>uint32\<close>; the library's model class is not in the repository.\<close>

record model =
  K :: "32 word"
  D :: "32 word"
  V :: "32 word"
  phi :: "real list list"
  theta :: "real list list"

text \<open>Modelled from the spec: section 3, \<open>\<theta>\<close> has D rows of K entries and \<open>\<phi>\<close> has K rows
  of V entries.\<close>

definition dimensions_ok :: "model \<Rightarrow> bool" where
  "dimensions_ok m \<longleftrightarrow>
     length (theta m) = unat (D m) \<and> list_all (\<lambda>row. length row = unat (K m)) (theta m) \<and>
     length (phi m) = unat (K m) \<and> list_all (\<lambda>row. length row = unat (V m)) (phi m)"

text \<open>Modelled from the spec: section 3, the entries are non-negative and each row sums
  to 1.\<close>

definition distribution :: "real list \<Rightarrow> bool" where
  "distribution ps \<longleftrightarrow> list_all (\<lambda>p. 0 \<le> p) ps \<and> sum_list ps = 1"

definition well_formed :: "model \<Rightarrow> bool" where
  "well_formed m \<longleftrightarrow>
     dimensions_ok m \<and> list_all distribution (theta m) \<and> list_all distribution (phi m)"

subsection \<open>Model Store\<close>






subsection \<open>Topic Model Query Layer\<close>

text \<open>Modelled from the spec: section 4.4, \<^verbatim>\<open>topic_distribution(doc_id)\<close> is the sequence
  of K probabilities of the document and fails with \<^verbatim>\<open>OutOfRangeError\<close> if \<^verbatim>\<open>doc_id\<close> is
  not in [0, D); the library's query class is not in the repository.\<close>

definition query_topic_distribution :: "model \<Rightarrow> int \<Rightarrow> error + real list" where
  "query_topic_distribution m doc_id =
     (if 0 \<le> doc_id \<and> doc_id < uint (D m) then Inr (theta m ! nat doc_id)
      else Inl OutOfRangeError)"

text \<open>Modelled from the spec: section 4.4, the default scorer returns the raw
  \<open>\<phi>[topic_id][term_id]\<close>; a scorer is a function of the model, the topic and the term
  (section 9).\<close>

type_synonym scorer = "model \<Rightarrow> nat \<Rightarrow> nat \<Rightarrow> real"

definition default_scorer :: scorer where
  "default_scorer m topic_id term_id = phi m ! topic_id ! term_id"

text \<open>Modelled from the spec: section 4.4, sorted descending by score, ties broken by
  ascending term id.\<close>

definition ranks_before :: "nat \<times> real \<Rightarrow> nat \<times> real \<Rightarrow> bool" where
  "ranks_before a b \<longleftrightarrow> snd b < snd a \<or> (snd a = snd b \<and> fst a \<le> fst b)"

fun insert_ranked :: "nat \<times> real \<Rightarrow> (nat \<times> real) list \<Rightarrow> (nat \<times> real) list" where
  "insert_ranked a [] = [a]"
| "insert_ranked a (b # bs) =
     (if ranks_before a b then a # b # bs else b # insert_ranked a bs)"

fun ranked :: "(nat \<times> real) list \<Rightarrow> (nat \<times> real) list" where
  "ranked [] = []"
| "ranked (a # as) = insert_ranked a (ranked as)"

text \<open>Modelled from the spec: section 4.4, \<^verbatim>\<open>top_k(topic_id, k, scorer)\<close> is the first
  \<open>k\<close> of the V (term id, score) pairs in that order and fails with \<^verbatim>\<open>OutOfRangeError\<close>
  if \<^verbatim>\<open>topic_id\<close> is not in [0, K); the library's query class is not in the repository.\<close>

definition query_top_k :: "model \<Rightarrow> scorer \<Rightarrow> int \<Rightarrow> nat \<Rightarrow> error + (nat \<times> real) list" where
  "query_top_k m sc topic_id k =
     (if 0 \<le> topic_id \<and> topic_id < uint (K m)
      then Inr (take k (ranked (map (\<lambda>t. (t, sc m (nat topic_id) t)) [0..<unat (V m)])))
      else Inl OutOfRangeError)"


subsection \<open>Libraries that implement these components\<close>

text \<open>Modelled from the spec: a library whose \<^verbatim>\<open>topic_distribution\<close> is the Query Layer's
  of section 4.4 on the model \<open>model_of mdl\<close> that the object \<open>mdl\<close> stands for, the error
  \<open>er\<close> raised as the exception \<open>exc er\<close>.\<close>

definition answers_topic_distribution ::
  "('v, 'e, 'w) env \<Rightarrow> ('v \<Rightarrow> model) \<Rightarrow> (error \<Rightarrow> 'e) \<Rightarrow> bool" where
  "answers_topic_distribution lib model_of exc \<longleftrightarrow>
     (\<forall>mdl d w.
        case query_topic_distribution (model_of mdl) d of
          Inl er \<Rightarrow> fst (topic_distribution lib mdl d w) = Inl (Other (exc er))
        | Inr ps \<Rightarrow> (\<exists>x. fst (topic_distribution lib mdl d w) = Inr x))"


text \<open>The last call, \<^verbatim>\<open>topic_distribution(900)\<close>, on a model of at most 900 documents ends
  the run with \<^verbatim>\<open>OutOfRangeError\<close>.\<close>

definition fails_at_900 ::
  "('v \<Rightarrow> model) \<Rightarrow> (error \<Rightarrow> 'e) \<Rightarrow> ('e exn + 'a) \<Rightarrow> ('v, 'e) event list \<Rightarrow> bool" where
  "fails_at_900 model_of exc r evs \<longleftrightarrow>
     (\<forall>mdl. Call (TopicDistribution mdl 900) \<in> set evs \<and> uint (D (model_of mdl)) \<le> 900 \<longrightarrow>
        r = Inl (Other (exc OutOfRangeError)))"

text \<open>A model of two topics, two documents and three terms.\<close>

definition small_model :: model where
  "small_model =
     \<lparr>K = 2, D = 2, V = 3,
      phi = [[1 / 2, 1 / 4, 1 / 4], [0, 1 / 2, 1 / 2]],
      theta = [[1 / 2, 1 / 2], [1, 0]]\<rparr>"


text \<open>
  A library to run the script on whose \<^verbatim>\<open>save\<close> and \<^verbatim>\<open>TopicModel\<close> are the Model Store.
  The world is the files and the state of the engine: \<^verbatim>\<open>LDACollapsedVB\<close> leaves the engine
  in \<open>blank_model\<close>, \<^verbatim>\<open>run\<close> changes its state to \<open>small_model\<close> (inference itself is not
  modelled), \<^verbatim>\<open>save\<close> writes the state the engine is in, and the other operations answer
  fixed objects.
\<close>

datatype object = Handle nat | Loaded model

fun model_of :: "object \<Rightarrow> model" where
  "model_of (Loaded m) = m"
| "model_of (Handle _) = small_model"



section \<open>Reasoning about statements\<close>

lemma emits_return: "P (Inr x) [] \<Longrightarrow> emits P (return x)"
  by (simp add: emits_def return_def)

lemma emits_print: "P (Inr ()) [Print p] \<Longrightarrow> emits P (print p)"
  by (simp add: emits_def print_def)

lemma emits_raise: "P (Inl e) [Raise e] \<Longrightarrow> emits P (raise e)"
  by (simp add: emits_def raise_def)

lemma emits_invoke:
  fixes f :: "('a, 'e, 'w) op" and c :: "'v call"
  assumes "\<And>x. P (Inr x) [Call c]" and "\<And>e. P (Inl e) [Call c, Raise e]"
  shows "emits P (invoke c f)"
  unfolding emits_def
proof
  fix s :: "('v, 'e, 'w) state"
  obtain r w' where f: "f (world s) = (r, w')" by (cases "f (world s)")
  show "\<exists>evs. trace (snd (invoke c f s)) = trace s @ evs \<and> P (fst (invoke c f s)) evs"
    using assms f by (cases r) (simp_all add: invoke_def)
qed

lemma emits_and_then:
  assumes m: "emits P m" and f: "\<And>x. emits Q (f x)"
    and fail: "\<And>e a. P (Inl e) a \<Longrightarrow> R (Inl e) a"
    and ok: "\<And>x a r b. P (Inr x) a \<Longrightarrow> Q r b \<Longrightarrow> R r (a @ b)"
  shows "emits R (and_then m f)"
  unfolding emits_def
proof
  fix s
  obtain r s1 where ms: "m s = (r, s1)" by (cases "m s")
  from m obtain a where a: "trace s1 = trace s @ a" "P r a"
    using ms unfolding emits_def by (metis fst_conv snd_conv)
  show "\<exists>evs. trace (snd (and_then m f s)) = trace s @ evs \<and> R (fst (and_then m f s)) evs"
  proof (cases r)
    case (Inl e)
    then show ?thesis using a ms fail by (simp add: and_then_def)
  next
    case (Inr x)
    from f obtain b where b: "trace (snd (f x s1)) = trace s1 @ b" "Q (fst (f x s1)) b"
      unfolding emits_def by blast
    then show ?thesis using a ms Inr ok by (simp add: and_then_def)
  qed
qed

lemma emitsD:
  "emits P m \<Longrightarrow> m s = (r, s') \<Longrightarrow> \<exists>evs. trace s' = trace s @ evs \<and> P r evs"
  unfolding emits_def by (metis fst_conv snd_conv)

lemma raised_append: "raised (a @ b) = raised a @ raised b"
  by (induction a rule: raised.induct) simp_all

lemma calls_append: "calls (a @ b) = calls a @ calls b"
  by (induction a rule: calls.induct) simp_all

lemma stage_calls_append: "stage_calls (a @ b) = stage_calls a @ stage_calls b"
  by (simp add: stage_calls_def calls_append)

lemma shape_append: "shape (a @ b) = shape a @ shape b"
  by (simp add: shape_def stage_calls_append)

subsection \<open>Symbolic execution\<close>

lemma and_then_print: "and_then (print p) f s = f () (s\<lparr>trace := trace s @ [Print p]\<rparr>)"
  by (simp add: and_then_def print_def)

lemma and_then_return: "and_then (return x) f s = f x s"
  by (simp add: and_then_def return_def)

lemma and_then_invoke_Inr:
  "f (world s) = (Inr x, w') \<Longrightarrow>
   and_then (invoke c f) k s = k x (s\<lparr>world := w', trace := trace s @ [Call c]\<rparr>)"
  by (simp add: and_then_def invoke_def)

lemma and_then_invoke_Inl:
  "f (world s) = (Inl e, w') \<Longrightarrow>
   and_then (invoke c f) k s = (Inl e, s\<lparr>world := w', trace := trace s @ [Call c, Raise e]\<rparr>)"
  by (simp add: and_then_def invoke_def)

lemma and_then_Inr_iff:
  "and_then m f s = (Inr y, s') \<longleftrightarrow> (\<exists>x s1. m s = (Inr x, s1) \<and> f x s1 = (Inr y, s'))"
  by (auto simp: and_then_def split: prod.splits sum.splits)

lemma invoke_Inr_iff:
  "invoke c f s = (Inr x, s') \<longleftrightarrow>
   (\<exists>w'. f (world s) = (Inr x, w') \<and> s' = s\<lparr>world := w', trace := trace s @ [Call c]\<rparr>)"
  by (auto simp: invoke_def split: prod.splits sum.splits)

lemma print_iff:
  "print p s = (r, s') \<longleftrightarrow> r = Inr () \<and> s' = s\<lparr>trace := trace s @ [Print p]\<rparr>"
  by (auto simp: print_def)

subsection \<open>Exceptions are not handled\<close>

lemma propagated_and_then:
  fixes m :: "('a, 'v, 'e, 'w) stmt" and f :: "'a \<Rightarrow> ('b, 'v, 'e, 'w) stmt"
  assumes "emits propagated m" and "\<And>x. emits propagated (f x)"
  shows "emits propagated (and_then m f)"
proof (rule emits_and_then [OF assms])
  fix x :: 'a and a b :: "('v, 'e) event list" and r :: "'e exn + 'b"
  assume "propagated (Inr x) a" "propagated r b"
  then show "propagated r (a @ b)"
    by (cases r) (auto simp: propagated_def raised_append)
next
  fix e :: "'e exn" and a :: "('v, 'e) event list"
  assume "propagated (Inl e :: 'e exn + 'a) a"
  then show "propagated (Inl e :: 'e exn + 'b) a"
    by (simp add: propagated_def)
qed

lemma propagated_print: "emits propagated (print p)"
  by (rule emits_print) (simp add: propagated_def)



lemma call_failedI:
  "evs = pre @ [Call c, Raise e] \<Longrightarrow> raised pre = [] \<Longrightarrow> call_failed (Inl e) evs"
  unfolding call_failed_def sum.case by (intro exI conjI; assumption)

lemma call_failedE:
  assumes "call_failed (Inl e) evs"
  obtains c pre where "evs = pre @ [Call c, Raise e]" "raised pre = []"
  using assms unfolding call_failed_def sum.case by (elim exE conjE)

lemma propagatedI:
  "evs = pre @ [Raise e] \<Longrightarrow> raised pre = [] \<Longrightarrow> propagated (Inl e) evs"
  unfolding propagated_def sum.case by (intro exI conjI; assumption)

lemma call_failed_and_then:
  fixes m :: "('a, 'v, 'e, 'w) stmt" and f :: "'a \<Rightarrow> ('b, 'v, 'e, 'w) stmt"
  assumes "emits call_failed m" and "\<And>x. emits call_failed (f x)"
  shows "emits call_failed (and_then m f)"
proof (rule emits_and_then [OF assms])
  fix x :: 'a and a b :: "('v, 'e) event list" and r :: "'e exn + 'b"
  assume a: "call_failed (Inr x) a" and b: "call_failed r b"
  from a have ra: "raised a = []" by (simp add: call_failed_def)
  show "call_failed r (a @ b)"
  proof (cases r)
    case (Inl e)
    from b [unfolded Inl] obtain c pre where "b = pre @ [Call c, Raise e]" "raised pre = []"
      by (rule call_failedE)
    then have "a @ b = (a @ pre) @ [Call c, Raise e]" "raised (a @ pre) = []"
      using ra by (simp_all add: raised_append)
    then show ?thesis unfolding Inl by (rule call_failedI)
  next
    case (Inr y)
    then show ?thesis using ra b by (simp add: call_failed_def raised_append)
  qed
next
  fix e :: "'e exn" and a :: "('v, 'e) event list"
  assume "call_failed (Inl e :: 'e exn + 'a) a"
  then show "call_failed (Inl e :: 'e exn + 'b) a"
    by (simp add: call_failed_def)
qed


lemma call_failed_return: "emits call_failed (return x)"
  by (rule emits_return) (simp add: call_failed_def)

lemma call_failed_invoke:
  fixes f :: "('a, 'e, 'w) op" and c :: "'v call"
  shows "emits call_failed (invoke c f)"
proof (rule emits_invoke)
  fix e :: "'e exn"
  show "call_failed (Inl e :: 'e exn + 'a) ([Call c, Raise e] :: ('v, 'e) event list)"
    by (rule call_failedI [of _ "[]"]) simp_all
next
  fix x :: 'a
  show "call_failed (Inr x :: 'e exn + 'a) ([Call c] :: ('v, 'e) event list)"
    by (simp add: call_failed_def)
qed

lemma call_failed_propagated: "call_failed r evs \<Longrightarrow> propagated r evs"
proof (cases r)
  case (Inl e)
  assume "call_failed r evs"
  then obtain c pre where "evs = pre @ [Call c, Raise e]" "raised pre = []"
    unfolding Inl by (rule call_failedE)
  then have "evs = (pre @ [Call c]) @ [Raise e]" "raised (pre @ [Call c]) = []"
    by (simp_all add: raised_append)
  then show ?thesis unfolding Inl by (rule propagatedI)
next
  case (Inr x)
  assume "call_failed r evs"
  then show ?thesis using Inr by (simp add: call_failed_def propagated_def)
qed

lemma emits_weaken: "emits P m \<Longrightarrow> (\<And>r evs. P r evs \<Longrightarrow> Q r evs) \<Longrightarrow> emits Q m"
  unfolding emits_def by blast

lemma term_texts_call_failed: "emits call_failed (term_texts lib fidx prs)"
  by (induction prs)
    (auto intro!: call_failed_and_then call_failed_return call_failed_invoke)



lemma invoke_propagated: "emits propagated (invoke c f)"
  by (rule emits_weaken [OF call_failed_invoke call_failed_propagated])


subsection \<open>The calls follow a fixed list\<close>

lemma follows_and_then:
  fixes m :: "('a, 'v, 'e, 'w) stmt" and f :: "'a \<Rightarrow> ('b, 'v, 'e, 'w) stmt"
  assumes "emits (follows L1) m" and "\<And>x. emits (follows L2) (f x)"
  shows "emits (follows (L1 @ L2)) (and_then m f)"
proof (rule emits_and_then [OF assms])
  fix x :: 'a and a b :: "('v, 'e) event list" and r :: "'e exn + 'b"
  assume "follows L1 (Inr x) a" "follows L2 r b"
  then show "follows (L1 @ L2) r (a @ b)"
    by (cases r) (auto simp: follows_def shape_append)
next
  fix e :: "'e exn" and a :: "('v, 'e) event list"
  assume "follows L1 (Inl e :: 'e exn + 'a) a"
  then show "follows (L1 @ L2) (Inl e :: 'e exn + 'b) a"
    by (simp add: follows_def prefix_prefix)
qed

lemma follows_print: "emits (follows []) (print p)"
  by (rule emits_print) (simp add: follows_def shape_def stage_calls_def)

lemma follows_return: "emits (follows []) (return x)"
  by (rule emits_return) (simp add: follows_def shape_def stage_calls_def)

lemma follows_invoke:
  "emits (follows (if per_term c then [] else [map_call (\<lambda>_. ()) c])) (invoke c f)"
  by (rule emits_invoke) (simp_all add: follows_def shape_def stage_calls_def)

lemma follows_calls:
  "emits (follows [MakeForwardIndex cfg]) (invoke (MakeForwardIndex cfg) f1)"
  "emits (follows [NewDataset ()]) (invoke (NewDataset a) f2)"
  "emits (follows [NewLDACollapsedVB () k al be]) (invoke (NewLDACollapsedVB a k al be) f3)"
  "emits (follows [Run () n]) (invoke (Run a n) f4)"
  "emits (follows [Save () path]) (invoke (Save a path) f5)"
  "emits (follows [NewTopicModel path]) (invoke (NewTopicModel path) f6)"
  "emits (follows [TopK () tid None]) (invoke (TopK a tid None) f7)"
  "emits (follows [TopK () tid (Some ())]) (invoke (TopK a tid (Some sc)) f7)"
  "emits (follows []) (invoke (TermText a b) f8)"
  "emits (follows [NewBLTermScorer ()]) (invoke (NewBLTermScorer a) f9)"
  "emits (follows [TopicDistribution () d]) (invoke (TopicDistribution a d) f10)"
  "emits (follows [LogToStderr]) (invoke LogToStderr f11)"
  "emits (follows [GetVersion]) (invoke GetVersion f12)"
  "emits (follows [TimeTime]) (invoke TimeTime f13)"
  using follows_invoke [of "MakeForwardIndex cfg" f1] follows_invoke [of "NewDataset a" f2]
    follows_invoke [of "NewLDACollapsedVB a k al be" f3] follows_invoke [of "Run a n" f4]
    follows_invoke [of "Save a path" f5] follows_invoke [of "NewTopicModel path" f6]
    follows_invoke [of "TopK a tid None" f7] follows_invoke [of "TopK a tid (Some sc)" f7]
    follows_invoke [of "TermText a b" f8]
    follows_invoke [of "NewBLTermScorer a" f9] follows_invoke [of "TopicDistribution a d" f10]
    follows_invoke [of LogToStderr f11] follows_invoke [of GetVersion f12]
    follows_invoke [of TimeTime f13]
  by simp_all

lemma follows_Nil_and_then:
  fixes m :: "('a, 'v, 'e, 'w) stmt" and f :: "'a \<Rightarrow> ('b, 'v, 'e, 'w) stmt"
  assumes "emits (follows []) m" and "\<And>x. emits (follows []) (f x)"
  shows "emits (follows []) (and_then m f)"
  using follows_and_then [OF assms] by simp

lemma term_texts_follows: "emits (follows []) (term_texts lib fidx prs)"
  by (induction prs) (auto intro!: follows_Nil_and_then follows_return follows_calls)

lemma follows_eq: "emits (follows L') m \<Longrightarrow> L' = L \<Longrightarrow> emits (follows L) m"
  by simp

lemma determine_topics_follows:
  "emits (follows
     [MakeForwardIndex cfg, NewDataset (), NewLDACollapsedVB () 2 1 (1 / 100), Run () 10,
      Save () ''lda-cvb0'', NewTopicModel ''lda-cvb0'', TopK () 0 None, TopK () 0 None,
      TopK () 1 None, NewBLTermScorer (), TopK () 0 (Some ()), TopK () 1 (Some ()),
      TopicDistribution () 0, TopicDistribution () 900])
     (determine_topics lib cfg)"
  unfolding determine_topics_def
  apply (rule follows_eq)
   apply (rule follows_and_then follows_print follows_calls term_texts_follows)+
  apply simp
  done

lemma term_texts_stage_calls:
  assumes "term_texts lib fidx prs s = (r, s')"
  shows "stage_calls (trace s') = stage_calls (trace s)"
proof -
  from emitsD [OF term_texts_follows assms]
  obtain evs where "trace s' = trace s @ evs" "prefix (shape evs) []"
    by (auto simp: follows_def)
  then show ?thesis by (simp add: stage_calls_append shape_def)
qed

subsection \<open>The call of \<^verbatim>\<open>run\<close>\<close>

lemma quiet_and_then:
  fixes m :: "('a, 'v, 'e, 'w) stmt" and f :: "'a \<Rightarrow> ('b, 'v, 'e, 'w) stmt"
  assumes "emits (quiet Q) m" and "\<And>x. emits (quiet Q) (f x)"
  shows "emits (quiet Q) (and_then m f)"
  by (rule emits_and_then [OF assms]) (simp_all add: quiet_def)

lemma quiet_print: "Q (Print p) \<Longrightarrow> emits (quiet Q) (print p)"
  by (rule emits_print) (simp add: quiet_def)

lemma quiet_return: "emits (quiet Q) (return x)"
  by (rule emits_return) (simp add: quiet_def)

lemma quiet_invoke: "Q (Call c) \<Longrightarrow> (\<And>e. Q (Raise e)) \<Longrightarrow> emits (quiet Q) (invoke c f)"
  by (rule emits_invoke) (simp_all add: quiet_def)

lemma term_texts_quiet:
  assumes "\<And>a b. Q (Call (TermText a b))" and "\<And>e. Q (Raise e)"
  shows "emits (quiet Q) (term_texts lib fidx prs)"
  by (induction prs) (auto intro!: quiet_and_then quiet_return quiet_invoke assms)

lemma run_once_before:
  fixes m :: "('a, 'v, 'e, 'w) stmt" and f :: "'a \<Rightarrow> ('b, 'v, 'e, 'w) stmt"
  assumes "emits (quiet (\<lambda>ev. \<not> is_run ev)) m" and "\<And>x. emits run_once (f x)"
  shows "emits run_once (and_then m f)"
proof (rule emits_and_then [OF assms])
  fix x :: 'a and a b :: "('v, 'e) event list" and r :: "'e exn + 'b"
  assume a: "quiet (\<lambda>ev. \<not> is_run ev) (Inr x) a" and b: "run_once r b"
  from b consider "list_all (\<lambda>ev. \<not> is_run ev) b"
    | pre l post where
        "b = pre @ [Print (Text ''1000 iterations of lda_inf ...''), Call (Run l 10)] @ post"
        "list_all (\<lambda>ev. \<not> is_run ev) pre" "list_all (\<lambda>ev. \<not> is_run ev) post"
    unfolding run_once_def by blast
  then show "run_once r (a @ b)"
  proof cases
    case 1
    then show ?thesis using a by (simp add: run_once_def quiet_def)
  next
    case 2
    then have
      "a @ b = (a @ pre) @ [Print (Text ''1000 iterations of lda_inf ...''), Call (Run l 10)] @ post"
      "list_all (\<lambda>ev. \<not> is_run ev) (a @ pre)"
      using a by (simp_all add: quiet_def)
    then show ?thesis using 2(3) unfolding run_once_def by blast
  qed
next
  fix e :: "'e exn" and a :: "('v, 'e) event list"
  assume "quiet (\<lambda>ev. \<not> is_run ev) (Inl e :: 'e exn + 'a) a"
  then show "run_once (Inl e :: 'e exn + 'b) a"
    by (simp add: run_once_def quiet_def)
qed

lemma run_once_here:
  fixes k :: "unit \<Rightarrow> ('b, 'v, 'e, 'w) stmt"
  assumes "\<And>x. emits (quiet (\<lambda>ev. \<not> is_run ev)) (k x)"
  shows "emits run_once
     (and_then (print (Text ''1000 iterations of lda_inf ...'')) (\<lambda>_.
      and_then (invoke (Run l 10) f) k))"
proof -
  let ?P = "\<lambda>(r :: 'e exn + unit) (evs :: ('v, 'e) event list).
              \<exists>post. evs = Call (Run l 10) # post \<and> list_all (\<lambda>ev. \<not> is_run ev) post"
  let ?Q = "\<lambda>(r :: 'e exn + 'b) (evs :: ('v, 'e) event list).
              \<exists>post. evs = Call (Run l 10) # post \<and> list_all (\<lambda>ev. \<not> is_run ev) post"
  let ?T = "\<lambda>(r :: 'e exn + unit) (evs :: ('v, 'e) event list).
              evs = [Print (Text ''1000 iterations of lda_inf ...'')]"
  have inv: "emits ?P (invoke (Run l 10) f)"
    by (rule emits_invoke) simp_all
  have rest: "emits ?Q (and_then (invoke (Run l 10) f) k)"
    by (rule emits_and_then [OF inv assms]) (auto simp: quiet_def)
  have pr: "emits ?T (print (Text ''1000 iterations of lda_inf ...''))"
    by (rule emits_print) simp
  show ?thesis
    by (rule emits_and_then [OF pr rest]) (auto simp: run_once_def intro!: exI [of _ "[]"])
qed

lemma determine_topics_run_once: "emits run_once (determine_topics lib cfg)"
  unfolding determine_topics_def
  by (rule run_once_here run_once_before quiet_and_then quiet_print quiet_invoke
        term_texts_quiet | simp)+

lemma invoke_in_trace:
  assumes "\<And>x. emits propagated (k x)"
  shows "Call c \<in> set (trace (snd (and_then (invoke c f) k s)))"
proof -
  have "emits (\<lambda>r evs. Call c \<in> set evs) (and_then (invoke c f) k)"
    by (rule emits_and_then [where P = "\<lambda>r evs. Call c \<in> set evs", OF emits_invoke assms])
      simp_all
  then show ?thesis
    unfolding emits_def by (metis Un_iff set_append)
qed

lemma term_texts_propagated: "emits propagated (term_texts lib fidx prs)"
  by (rule emits_weaken [OF term_texts_call_failed]) (rule call_failed_propagated)

lemma trace_init: "trace (init w) = []"
  by (simp add: init_def)

lemma world_init: "world (init w) = w"
  by (simp add: init_def)

section \<open>The stub library at work\<close>

lemma stub_run:
  "determine_topics (stub 1000) ''cfg'' (init 0) =
    (Inr (),
     \<lparr>world = 79200,
      trace =
       [Print (Text ''making forward index ...''),
        Call (MakeForwardIndex ''cfg''), Print (Text ''creating dset ...''),
        Call (NewDataset 1), Print (Text ''creating lda_inf ...''),
        Call (NewLDACollapsedVB 2 2 1 (1 / 100)),
        Print (Text ''1000 iterations of lda_inf ...''), Call (Run 3 10),
        Print (Text ''creating lda-cvb0 ...''), Call (Save 3 ''lda-cvb0''),
        Print (Text ''forming model ...''),
        Call (NewTopicModel ''lda-cvb0''),
        Print (Text ''topic id = 0 ...''), Call (TopK 4 0 None),
        Print (Text ''map term id 0 to strings ...''), Call (TopK 4 0 None),
        Call (TermText 1 10), Call (TermText 1 11),
        Print (Pairs [(110, 70), (111, 30)]),
        Print (Text ''map term id 1 to strings ...''), Call (TopK 4 1 None),
        Call (TermText 1 10), Call (TermText 1 11),
        Print (Pairs [(110, 70), (111, 30)]),
        Print (Text ''create scorer ...''), Call (NewBLTermScorer 4),
        Print (Text ''build fidx using BL Term Scorer, topic 0 ...''),
        Call (TopK 4 0 (Some 5)), Call (TermText 1 10),
        Call (TermText 1 11), Print (Pairs [(110, 70), (111, 30)]),
        Print (Text ''build fidx using BL Term Scorer, topic 1 ...''),
        Call (TopK 4 1 (Some 5)), Call (TermText 1 10),
        Call (TermText 1 11), Print (Pairs [(110, 70), (111, 30)]),
        Call (TopicDistribution 4 0), Print (Object 6),
        Call (TopicDistribution 4 900), Print (Object 6)]\<rparr>)"
  by (simp add: determine_topics_def and_then_def print_def invoke_def return_def
        stub_def tick_def init_def)

lemma stub_run_900:
  "determine_topics (stub 900) ''cfg'' (init 0) =
    (Inl (Other ''OutOfRangeError''),
     \<lparr>world = 75600,
      trace =
       [Print (Text ''making forward index ...''),
        Call (MakeForwardIndex ''cfg''), Print (Text ''creating dset ...''),
        Call (NewDataset 1), Print (Text ''creating lda_inf ...''),
        Call (NewLDACollapsedVB 2 2 1 (1 / 100)),
        Print (Text ''1000 iterations of lda_inf ...''), Call (Run 3 10),
        Print (Text ''creating lda-cvb0 ...''), Call (Save 3 ''lda-cvb0''),
        Print (Text ''forming model ...''),
        Call (NewTopicModel ''lda-cvb0''),
        Print (Text ''topic id = 0 ...''), Call (TopK 4 0 None),
        Print (Text ''map term id 0 to strings ...''), Call (TopK 4 0 None),
        Call (TermText 1 10), Call (TermText 1 11),
        Print (Pairs [(110, 70), (111, 30)]),
        Print (Text ''map term id 1 to strings ...''), Call (TopK 4 1 None),
        Call (TermText 1 10), Call (TermText 1 11),
        Print (Pairs [(110, 70), (111, 30)]),
        Print (Text ''create scorer ...''), Call (NewBLTermScorer 4),
        Print (Text ''build fidx using BL Term Scorer, topic 0 ...''),
        Call (TopK 4 0 (Some 5)), Call (TermText 1 10),
        Call (TermText 1 11), Print (Pairs [(110, 70), (111, 30)]),
        Print (Text ''build fidx using BL Term Scorer, topic 1 ...''),
        Call (TopK 4 1 (Some 5)), Call (TermText 1 10),
        Call (TermText 1 11), Print (Pairs [(110, 70), (111, 30)]),
        Call (TopicDistribution 4 0), Print (Object 6),
        Call (TopicDistribution 4 900), Raise (Other ''OutOfRangeError'')]\<rparr>)"
  by (simp add: determine_topics_def and_then_def print_def invoke_def return_def
        stub_def tick_def init_def)

subsection \<open>The operations applied\<close>

lemma performs_print: "performs (print p) (op_return ())"
  by (simp add: performs_def print_def op_return_def)

lemma performs_return: "performs (return x) (op_return x)"
  by (simp add: performs_def return_def op_return_def)

lemma performs_invoke: "performs (invoke c f) f"
  by (simp add: performs_def invoke_def split: prod.splits sum.splits)

lemma performs_and_then:
  assumes "performs m f" and "\<And>x. performs (k x) (g x)"
  shows "performs (and_then m k) (op_then f g)"
  unfolding performs_def
proof
  fix s
  obtain r s1 where ms: "m s = (r, s1)" by (cases "m s")
  with assms(1) have f: "f (world s) = (r, world s1)"
    unfolding performs_def by (metis fst_conv snd_conv prod.collapse)
  show "fst (and_then m k s) = fst (op_then f g (world s)) \<and>
      world (snd (and_then m k s)) = snd (op_then f g (world s))"
  proof (cases r)
    case (Inl e)
    with ms f show ?thesis by (simp add: and_then_def op_then_def)
  next
    case (Inr x)
    with ms f assms(2) [of x] show ?thesis
      by (simp add: and_then_def op_then_def performs_def)
  qed
qed

lemma term_texts_performs: "performs (term_texts lib fidx prs) (term_text_ops lib fidx prs)"
  by (induction prs) (auto intro!: performs_and_then performs_return performs_invoke)

lemma performs_eq: "performs m f' \<Longrightarrow> f' = f \<Longrightarrow> performs m f"
  by simp

lemma op_then_return: "op_then (op_return x) k = k x"
  by (simp add: fun_eq_iff op_then_def op_return_def)

lemma performs_outcome: "performs m f \<Longrightarrow> outcome m = f"
  by (simp add: fun_eq_iff outcome_def performs_def init_def)

lemma determine_topics_performs:
  "performs (determine_topics lib cfg)
     (op_then (make_forward_index lib cfg) (\<lambda>fidx.
      op_then (Dataset lib fidx) (\<lambda>dset.
      op_then (LDACollapsedVB lib dset 2 1 (1 / 100)) (\<lambda>lda_inf.
      op_then (run lib lda_inf 10) (\<lambda>_.
      op_then (save lib lda_inf ''lda-cvb0'') (\<lambda>_.
      op_then (TopicModel lib ''lda-cvb0'') (\<lambda>model.
      op_then (top_k lib model 0 None) (\<lambda>_.
      op_then (top_k lib model 0 None) (\<lambda>prs.
      op_then (term_text_ops lib fidx prs) (\<lambda>_.
      op_then (top_k lib model 1 None) (\<lambda>prs.
      op_then (term_text_ops lib fidx prs) (\<lambda>_.
      op_then (BLTermScorer lib model) (\<lambda>scorer.
      op_then (top_k lib model 0 (Some scorer)) (\<lambda>prs.
      op_then (term_text_ops lib fidx prs) (\<lambda>_.
      op_then (top_k lib model 1 (Some scorer)) (\<lambda>prs.
      op_then (term_text_ops lib fidx prs) (\<lambda>_.
      op_then (topic_distribution lib model 0) (\<lambda>_.
      op_then (topic_distribution lib model 900) (\<lambda>_.
      op_return ())))))))))))))))))))"
  unfolding determine_topics_def
  apply (rule performs_eq)
   apply (rule performs_and_then performs_print performs_invoke term_texts_performs)+
  apply (simp add: op_then_return)
  done

lemma invoke_prefix:
  assumes "\<And>x. emits propagated (k x)" and "evs = trace s @ [Call c]"
  shows "prefix evs (trace (snd (and_then (invoke c f) k s)))"
proof -
  have "emits (\<lambda>r evs. prefix [Call c] evs) (and_then (invoke c f) k)"
    by (rule emits_and_then [where P = "\<lambda>r evs. prefix [Call c] evs",
          OF emits_invoke assms(1)]) simp_all
  then obtain more where "trace (snd (and_then (invoke c f) k s)) = trace s @ more"
    and "prefix [Call c] more"
    unfolding emits_def by blast
  with assms(2) show ?thesis
    by simp
qed

subsection \<open>A run that returns\<close>

lemma term_texts_returns:
  assumes "term_texts lib fidx prs s = (r, s')"
  shows "term_text_ops lib fidx prs (world s) = (r, world s') \<and>
    stage_calls (trace s') = stage_calls (trace s)"
proof
  from term_texts_performs [of lib fidx prs] assms
  show "term_text_ops lib fidx prs (world s) = (r, world s')"
    unfolding performs_def by (metis fst_conv snd_conv prod.collapse)
  from assms show "stage_calls (trace s') = stage_calls (trace s)"
    by (rule term_texts_stage_calls)
qed

lemma determine_topics_returns:
  assumes "determine_topics lib cfg (init w) = (Inr u, s')"
  shows "\<exists>fidx w1 dset w2 lda_inf w3 w4 w5 model w6 prs0 w7 prs1 w8 xs1 w9 prs2 w10 xs2 w11
          scorer w12 prs3 w13 xs3 w14 prs4 w15 xs4 w16 d0 w17 d1.
         make_forward_index lib cfg w = (Inr fidx, w1) \<and>
         Dataset lib fidx w1 = (Inr dset, w2) \<and>
         LDACollapsedVB lib dset 2 1 (1 / 100) w2 = (Inr lda_inf, w3) \<and>
         run lib lda_inf 10 w3 = (Inr (), w4) \<and>
         save lib lda_inf ''lda-cvb0'' w4 = (Inr (), w5) \<and>
         TopicModel lib ''lda-cvb0'' w5 = (Inr model, w6) \<and>
         top_k lib model 0 None w6 = (Inr prs0, w7) \<and>
         top_k lib model 0 None w7 = (Inr prs1, w8) \<and>
         term_text_ops lib fidx prs1 w8 = (Inr xs1, w9) \<and>
         top_k lib model 1 None w9 = (Inr prs2, w10) \<and>
         term_text_ops lib fidx prs2 w10 = (Inr xs2, w11) \<and>
         BLTermScorer lib model w11 = (Inr scorer, w12) \<and>
         top_k lib model 0 (Some scorer) w12 = (Inr prs3, w13) \<and>
         term_text_ops lib fidx prs3 w13 = (Inr xs3, w14) \<and>
         top_k lib model 1 (Some scorer) w14 = (Inr prs4, w15) \<and>
         term_text_ops lib fidx prs4 w15 = (Inr xs4, w16) \<and>
         topic_distribution lib model 0 w16 = (Inr d0, w17) \<and>
         topic_distribution lib model 900 w17 = (Inr d1, world s') \<and>
         stage_calls (trace s') =
           [MakeForwardIndex cfg, NewDataset fidx, NewLDACollapsedVB dset 2 1 (1 / 100),
            Run lda_inf 10, Save lda_inf ''lda-cvb0'', NewTopicModel ''lda-cvb0'',
            TopK model 0 None, TopK model 0 None, TopK model 1 None, NewBLTermScorer model,
            TopK model 0 (Some scorer), TopK model 1 (Some scorer),
            TopicDistribution model 0, TopicDistribution model 900]"
  using assms unfolding determine_topics_def
  apply (simp add: and_then_print and_then_Inr_iff invoke_Inr_iff print_iff init_def)
  apply (elim exE conjE)
  apply (drule term_texts_returns)+
  apply (elim conjE)
  apply (simp add: stage_calls_append)
  apply (simp add: stage_calls_def)
  done

section \<open>The claims about the script\<close>

text \<open>
  C1. In \<^verbatim>\<open>determine_topics\<close> the engine's \<^verbatim>\<open>run\<close> is invoked with \<^verbatim>\<open>num_iters=10\<close>, although
  the line printed just before it says 1000 iterations. In every run, whatever the
  library does: a call of \<^verbatim>\<open>run\<close> in the trace has the iteration count 10, it is the only
  call of \<^verbatim>\<open>run\<close>, and the event right before it is the line
  \<^verbatim>\<open>1000 iterations of lda_inf ...\<close>. Whenever the index, the dataset and the engine were
  built without an exception, the run begins with the eight events up to that call, made
  on the engine just built. And 10 is what the library's \<^verbatim>\<open>run\<close> is applied to: what a
  run answers and does to the world is the library's operations applied in sequence,
  each in the world the previous one left, \<^verbatim>\<open>run\<close> once, to the engine that
  \<^verbatim>\<open>LDACollapsedVB\<close> returned and to 10.
\<close>

theorem run_num_iters_is_10:
  fixes lib :: "('a, 'b, 'c) env"
  shows "(\<forall>l n. Call (Run l n) \<in> set (trace (snd (determine_topics lib cfg (init w)))) \<longrightarrow>
      n = 10 \<and>
      (\<exists>pre post. trace (snd (determine_topics lib cfg (init w))) =
           pre @ [Print (Text ''1000 iterations of lda_inf ...''), Call (Run l 10)] @ post \<and>
         list_all (\<lambda>ev. \<not> is_run ev) pre \<and> list_all (\<lambda>ev. \<not> is_run ev) post)) \<and>
   (\<forall>fidx w1 dset w2 lda_inf w3.
      make_forward_index lib cfg w = (Inr fidx, w1) \<and>
      Dataset lib fidx w1 = (Inr dset, w2) \<and>
      LDACollapsedVB lib dset 2 1 (1 / 100) w2 = (Inr lda_inf, w3) \<longrightarrow>
      Call (Run lda_inf 10) \<in> set (trace (snd (determine_topics lib cfg (init w)))) \<and>
      prefix
        [Print (Text ''making forward index ...''), Call (MakeForwardIndex cfg),
         Print (Text ''creating dset ...''), Call (NewDataset fidx),
         Print (Text ''creating lda_inf ...''), Call (NewLDACollapsedVB dset 2 1 (1 / 100)),
         Print (Text ''1000 iterations of lda_inf ...''), Call (Run lda_inf 10)]
        (trace (snd (determine_topics lib cfg (init w))))) \<and>
   outcome (determine_topics lib cfg) =
     (op_then (make_forward_index lib cfg) (\<lambda>fidx.
      op_then (Dataset lib fidx) (\<lambda>dset.
      op_then (LDACollapsedVB lib dset 2 1 (1 / 100)) (\<lambda>lda_inf.
      op_then (run lib lda_inf 10) (\<lambda>_.
      op_then (save lib lda_inf ''lda-cvb0'') (\<lambda>_.
      op_then (TopicModel lib ''lda-cvb0'') (\<lambda>model.
      op_then (top_k lib model 0 None) (\<lambda>_.
      op_then (top_k lib model 0 None) (\<lambda>prs.
      op_then (term_text_ops lib fidx prs) (\<lambda>_.
      op_then (top_k lib model 1 None) (\<lambda>prs.
      op_then (term_text_ops lib fidx prs) (\<lambda>_.
      op_then (BLTermScorer lib model) (\<lambda>scorer.
      op_then (top_k lib model 0 (Some scorer)) (\<lambda>prs.
      op_then (term_text_ops lib fidx prs) (\<lambda>_.
      op_then (top_k lib model 1 (Some scorer)) (\<lambda>prs.
      op_then (term_text_ops lib fidx prs) (\<lambda>_.
      op_then (topic_distribution lib model 0) (\<lambda>_.
      op_then (topic_distribution lib model 900) (\<lambda>_.
      op_return ())))))))))))))))))))"
proof (intro conjI allI impI)
  fix l n
  let ?tr = "trace (snd (determine_topics lib cfg (init w)))"
  assume mem: "Call (Run l n) \<in> set ?tr"
  obtain r s' where run: "determine_topics lib cfg (init w) = (r, s')"
    by (cases "determine_topics lib cfg (init w)")
  from emitsD [OF determine_topics_run_once run]
  have once: "run_once r ?tr" by (auto simp: run trace_init)
  have "is_run (Call (Run l n) :: ('a, 'b) event)" by simp
  with mem have "\<not> list_all (\<lambda>ev. \<not> is_run ev) ?tr"
    unfolding list_all_iff by blast
  with once obtain pre l' post where
    tr: "?tr = pre @ [Print (Text ''1000 iterations of lda_inf ...''), Call (Run l' 10)] @ post"
    and quiet: "list_all (\<lambda>ev. \<not> is_run ev) pre" "list_all (\<lambda>ev. \<not> is_run ev) post"
    unfolding run_once_def by blast
  from mem quiet have same: "l = l' \<and> n = 10"
    unfolding tr by (auto simp: list_all_iff)
  then show "n = 10" by simp
  from tr quiet same
  show "\<exists>pre post. ?tr = pre @ [Print (Text ''1000 iterations of lda_inf ...''), Call (Run l 10)] @ post \<and>
          list_all (\<lambda>ev. \<not> is_run ev) pre \<and> list_all (\<lambda>ev. \<not> is_run ev) post"
    by blast
next
  fix fidx w1 dset w2 lda_inf w3
  assume "make_forward_index lib cfg w = (Inr fidx, w1) \<and>
      Dataset lib fidx w1 = (Inr dset, w2) \<and>
      LDACollapsedVB lib dset 2 1 (1 / 100) w2 = (Inr lda_inf, w3)"
  then show "Call (Run lda_inf 10) \<in> set (trace (snd (determine_topics lib cfg (init w))))"
    unfolding determine_topics_def
    apply (simp add: and_then_print and_then_invoke_Inr init_def)
    apply (rule invoke_in_trace)
    apply (intro propagated_and_then propagated_print invoke_propagated term_texts_propagated)
    done
next
  fix fidx w1 dset w2 lda_inf w3
  assume "make_forward_index lib cfg w = (Inr fidx, w1) \<and>
      Dataset lib fidx w1 = (Inr dset, w2) \<and>
      LDACollapsedVB lib dset 2 1 (1 / 100) w2 = (Inr lda_inf, w3)"
  then show "prefix
        [Print (Text ''making forward index ...''), Call (MakeForwardIndex cfg),
         Print (Text ''creating dset ...''), Call (NewDataset fidx),
         Print (Text ''creating lda_inf ...''), Call (NewLDACollapsedVB dset 2 1 (1 / 100)),
         Print (Text ''1000 iterations of lda_inf ...''), Call (Run lda_inf 10)]
        (trace (snd (determine_topics lib cfg (init w))))"
    unfolding determine_topics_def
    apply (simp add: and_then_print and_then_invoke_Inr init_def)
    apply (rule invoke_prefix)
     apply (intro propagated_and_then propagated_print invoke_propagated term_texts_propagated)
    apply simp
    done
next
  show "outcome (determine_topics lib cfg) =
     (op_then (make_forward_index lib cfg) (\<lambda>fidx.
      op_then (Dataset lib fidx) (\<lambda>dset.
      op_then (LDACollapsedVB lib dset 2 1 (1 / 100)) (\<lambda>lda_inf.
      op_then (run lib lda_inf 10) (\<lambda>_.
      op_then (save lib lda_inf ''lda-cvb0'') (\<lambda>_.
      op_then (TopicModel lib ''lda-cvb0'') (\<lambda>model.
      op_then (top_k lib model 0 None) (\<lambda>_.
      op_then (top_k lib model 0 None) (\<lambda>prs.
      op_then (term_text_ops lib fidx prs) (\<lambda>_.
      op_then (top_k lib model 1 None) (\<lambda>prs.
      op_then (term_text_ops lib fidx prs) (\<lambda>_.
      op_then (BLTermScorer lib model) (\<lambda>scorer.
      op_then (top_k lib model 0 (Some scorer)) (\<lambda>prs.
      op_then (term_text_ops lib fidx prs) (\<lambda>_.
      op_then (top_k lib model 1 (Some scorer)) (\<lambda>prs.
      op_then (term_text_ops lib fidx prs) (\<lambda>_.
      op_then (topic_distribution lib model 0) (\<lambda>_.
      op_then (topic_distribution lib model 900) (\<lambda>_.
      op_return ())))))))))))))))))))"
    by (rule performs_outcome [OF determine_topics_performs])
qed

text \<open>
  Witness for C1, on the stub library whose engine takes a second per iteration: \<^verbatim>\<open>run\<close>
  is called on engine 3 with 10, and of the 75610 seconds the run takes, 21 hours are
  the other operations' and 10 seconds are the engine's.
\<close>

theorem run_num_iters_is_10_witness:
  "Call (Run 3 10) \<in> set (trace (snd (determine_topics counting_stub ''cfg'' (init 0)))) \<and>
   (\<exists>pre post. trace (snd (determine_topics counting_stub ''cfg'' (init 0))) =
        pre @ [Print (Text ''1000 iterations of lda_inf ...''), Call (Run 3 10)] @ post \<and>
      list_all (\<lambda>ev. \<not> is_run ev) pre \<and> list_all (\<lambda>ev. \<not> is_run ev) post) \<and>
   outcome (determine_topics counting_stub ''cfg'') 0 = (Inr (), 75610)"
proof -
  note inst = run_num_iters_is_10 [of counting_stub "''cfg''" 0]
  have "make_forward_index counting_stub ''cfg'' 0 = (Inr 1, 3600) \<and>
      Dataset counting_stub 1 3600 = (Inr 2, 7200) \<and>
      LDACollapsedVB counting_stub 2 2 1 (1 / 100) 7200 = (Inr 3, 10800)"
    by (simp add: counting_stub_def stub_def tick_def)
  with inst [THEN conjunct2, THEN conjunct1]
  have mem: "Call (Run 3 10) \<in> set (trace (snd (determine_topics counting_stub ''cfg'' (init 0))))"
    by blast
  with inst [THEN conjunct1]
  have ex: "\<exists>pre post. trace (snd (determine_topics counting_stub ''cfg'' (init 0))) =
        pre @ [Print (Text ''1000 iterations of lda_inf ...''), Call (Run 3 10)] @ post \<and>
      list_all (\<lambda>ev. \<not> is_run ev) pre \<and> list_all (\<lambda>ev. \<not> is_run ev) post"
    by blast
  have "outcome (determine_topics counting_stub ''cfg'') 0 = (Inr (), 75610)"
    unfolding inst [THEN conjunct2, THEN conjunct2]
    by (simp add: op_then_def op_return_def counting_stub_def stub_def tick_def)
  with mem ex show ?thesis by simp
qed

text \<open>
  C7. \<^verbatim>\<open>determine_topics\<close> runs the stages in one fixed order: the forward index is made,
  the dataset is built from it, the engine is built on the dataset and run, its state is
  saved to \<^verbatim>\<open>lda-cvb0\<close>, the model is loaded from \<^verbatim>\<open>lda-cvb0\<close>, queried, the scorer is
  built on the loaded model, and the model is queried with that scorer. In every run the
  calls made (the per-term \<^verbatim>\<open>term_text\<close> calls left out) are an initial part of this
  list, and what the run answers and does to the world is the library's operations
  applied in this order, each to the objects the earlier ones returned and in the world
  the previous one left, up to the first that raises. In a run that returns every
  operation of the list returned, the scorer passed to the last two \<^verbatim>\<open>top_k\<close> is the one
  \<^verbatim>\<open>BLTermScorer\<close> returned for the loaded model, and the calls made are the whole list.
\<close>

theorem pipeline_order:
  fixes lib :: "('v, 'e, 'w) env"
  shows
  "prefix (shape (trace (snd (determine_topics lib cfg (init w)))))
     [MakeForwardIndex cfg, NewDataset (), NewLDACollapsedVB () 2 1 (1 / 100), Run () 10,
      Save () ''lda-cvb0'', NewTopicModel ''lda-cvb0'', TopK () 0 None, TopK () 0 None,
      TopK () 1 None, NewBLTermScorer (), TopK () 0 (Some ()), TopK () 1 (Some ()),
      TopicDistribution () 0, TopicDistribution () 900] \<and>
   outcome (determine_topics lib cfg) =
     (op_then (make_forward_index lib cfg) (\<lambda>fidx.
      op_then (Dataset lib fidx) (\<lambda>dset.
      op_then (LDACollapsedVB lib dset 2 1 (1 / 100)) (\<lambda>lda_inf.
      op_then (run lib lda_inf 10) (\<lambda>_.
      op_then (save lib lda_inf ''lda-cvb0'') (\<lambda>_.
      op_then (TopicModel lib ''lda-cvb0'') (\<lambda>model.
      op_then (top_k lib model 0 None) (\<lambda>_.
      op_then (top_k lib model 0 None) (\<lambda>prs.
      op_then (term_text_ops lib fidx prs) (\<lambda>_.
      op_then (top_k lib model 1 None) (\<lambda>prs.
      op_then (term_text_ops lib fidx prs) (\<lambda>_.
      op_then (BLTermScorer lib model) (\<lambda>scorer.
      op_then (top_k lib model 0 (Some scorer)) (\<lambda>prs.
      op_then (term_text_ops lib fidx prs) (\<lambda>_.
      op_then (top_k lib model 1 (Some scorer)) (\<lambda>prs.
      op_then (term_text_ops lib fidx prs) (\<lambda>_.
      op_then (topic_distribution lib model 0) (\<lambda>_.
      op_then (topic_distribution lib model 900) (\<lambda>_.
      op_return ()))))))))))))))))))) \<and>
   (\<forall>u s'. determine_topics lib cfg (init w) = (Inr u, s') \<longrightarrow>
      (\<exists>fidx w1 dset w2 lda_inf w3 w4 w5 model w6 prs0 w7 prs1 w8 xs1 w9 prs2 w10 xs2 w11
          scorer w12 prs3 w13 xs3 w14 prs4 w15 xs4 w16 d0 w17 d1.
         make_forward_index lib cfg w = (Inr fidx, w1) \<and>
         Dataset lib fidx w1 = (Inr dset, w2) \<and>
         LDACollapsedVB lib dset 2 1 (1 / 100) w2 = (Inr lda_inf, w3) \<and>
         run lib lda_inf 10 w3 = (Inr (), w4) \<and>
         save lib lda_inf ''lda-cvb0'' w4 = (Inr (), w5) \<and>
         TopicModel lib ''lda-cvb0'' w5 = (Inr model, w6) \<and>
         top_k lib model 0 None w6 = (Inr prs0, w7) \<and>
         top_k lib model 0 None w7 = (Inr prs1, w8) \<and>
         term_text_ops lib fidx prs1 w8 = (Inr xs1, w9) \<and>
         top_k lib model 1 None w9 = (Inr prs2, w10) \<and>
         term_text_ops lib fidx prs2 w10 = (Inr xs2, w11) \<and>
         BLTermScorer lib model w11 = (Inr scorer, w12) \<and>
         top_k lib model 0 (Some scorer) w12 = (Inr prs3, w13) \<and>
         term_text_ops lib fidx prs3 w13 = (Inr xs3, w14) \<and>
         top_k lib model 1 (Some scorer) w14 = (Inr prs4, w15) \<and>
         term_text_ops lib fidx prs4 w15 = (Inr xs4, w16) \<and>
         topic_distribution lib model 0 w16 = (Inr d0, w17) \<and>
         topic_distribution lib model 900 w17 = (Inr d1, world s') \<and>
         stage_calls (trace s') =
           [MakeForwardIndex cfg, NewDataset fidx, NewLDACollapsedVB dset 2 1 (1 / 100),
            Run lda_inf 10, Save lda_inf ''lda-cvb0'', NewTopicModel ''lda-cvb0'',
            TopK model 0 None, TopK model 0 None, TopK model 1 None, NewBLTermScorer model,
            TopK model 0 (Some scorer), TopK model 1 (Some scorer),
            TopicDistribution model 0, TopicDistribution model 900]))"
proof (intro conjI allI impI)
  obtain r s' where run: "determine_topics lib cfg (init w) = (r, s')"
    by (cases "determine_topics lib cfg (init w)")
  from emitsD [OF determine_topics_follows run]
  show "prefix (shape (trace (snd (determine_topics lib cfg (init w)))))
     [MakeForwardIndex cfg, NewDataset (), NewLDACollapsedVB () 2 1 (1 / 100), Run () 10,
      Save () ''lda-cvb0'', NewTopicModel ''lda-cvb0'', TopK () 0 None, TopK () 0 None,
      TopK () 1 None, NewBLTermScorer (), TopK () 0 (Some ()), TopK () 1 (Some ()),
      TopicDistribution () 0, TopicDistribution () 900]"
    by (auto simp: run trace_init follows_def)
next
  show "outcome (determine_topics lib cfg) =
     (op_then (make_forward_index lib cfg) (\<lambda>fidx.
      op_then (Dataset lib fidx) (\<lambda>dset.
      op_then (LDACollapsedVB lib dset 2 1 (1 / 100)) (\<lambda>lda_inf.
      op_then (run lib lda_inf 10) (\<lambda>_.
      op_then (save lib lda_inf ''lda-cvb0'') (\<lambda>_.
      op_then (TopicModel lib ''lda-cvb0'') (\<lambda>model.
      op_then (top_k lib model 0 None) (\<lambda>_.
      op_then (top_k lib model 0 None) (\<lambda>prs.
      op_then (term_text_ops lib fidx prs) (\<lambda>_.
      op_then (top_k lib model 1 None) (\<lambda>prs.
      op_then (term_text_ops lib fidx prs) (\<lambda>_.
      op_then (BLTermScorer lib model) (\<lambda>scorer.
      op_then (top_k lib model 0 (Some scorer)) (\<lambda>prs.
      op_then (term_text_ops lib fidx prs) (\<lambda>_.
      op_then (top_k lib model 1 (Some scorer)) (\<lambda>prs.
      op_then (term_text_ops lib fidx prs) (\<lambda>_.
      op_then (topic_distribution lib model 0) (\<lambda>_.
      op_then (topic_distribution lib model 900) (\<lambda>_.
      op_return ())))))))))))))))))))"
    by (rule performs_outcome [OF determine_topics_performs])
next
  fix u s'
  assume "determine_topics lib cfg (init w) = (Inr u, s')"
  then show "\<exists>fidx w1 dset w2 lda_inf w3 w4 w5 model w6 prs0 w7 prs1 w8 xs1 w9 prs2 w10 xs2 w11
          scorer w12 prs3 w13 xs3 w14 prs4 w15 xs4 w16 d0 w17 d1.
         make_forward_index lib cfg w = (Inr fidx, w1) \<and>
         Dataset lib fidx w1 = (Inr dset, w2) \<and>
         LDACollapsedVB lib dset 2 1 (1 / 100) w2 = (Inr lda_inf, w3) \<and>
         run lib lda_inf 10 w3 = (Inr (), w4) \<and>
         save lib lda_inf ''lda-cvb0'' w4 = (Inr (), w5) \<and>
         TopicModel lib ''lda-cvb0'' w5 = (Inr model, w6) \<and>
         top_k lib model 0 None w6 = (Inr prs0, w7) \<and>
         top_k lib model 0 None w7 = (Inr prs1, w8) \<and>
         term_text_ops lib fidx prs1 w8 = (Inr xs1, w9) \<and>
         top_k lib model 1 None w9 = (Inr prs2, w10) \<and>
         term_text_ops lib fidx prs2 w10 = (Inr xs2, w11) \<and>
         BLTermScorer lib model w11 = (Inr scorer, w12) \<and>
         top_k lib model 0 (Some scorer) w12 = (Inr prs3, w13) \<and>
         term_text_ops lib fidx prs3 w13 = (Inr xs3, w14) \<and>
         top_k lib model 1 (Some scorer) w14 = (Inr prs4, w15) \<and>
         term_text_ops lib fidx prs4 w15 = (Inr xs4, w16) \<and>
         topic_distribution lib model 0 w16 = (Inr d0, w17) \<and>
         topic_distribution lib model 900 w17 = (Inr d1, world s') \<and>
         stage_calls (trace s') =
           [MakeForwardIndex cfg, NewDataset fidx, NewLDACollapsedVB dset 2 1 (1 / 100),
            Run lda_inf 10, Save lda_inf ''lda-cvb0'', NewTopicModel ''lda-cvb0'',
            TopK model 0 None, TopK model 0 None, TopK model 1 None, NewBLTermScorer model,
            TopK model 0 (Some scorer), TopK model 1 (Some scorer),
            TopicDistribution model 0, TopicDistribution model 900]"
    by (rule determine_topics_returns)
qed

text \<open>
  Witness for C7: the run on the stub library returns after 22 operations of an hour
  each, its calls are the list, and the scorer passed to \<^verbatim>\<open>top_k\<close> is object 5, which
  \<^verbatim>\<open>BLTermScorer\<close> returned for the loaded model, object 4.
\<close>

theorem pipeline_order_witness:
  "determine_topics (stub 1000) ''cfg'' (init 0) =
     (Inr (), snd (determine_topics (stub 1000) ''cfg'' (init 0))) \<and>
   stage_calls (trace (snd (determine_topics (stub 1000) ''cfg'' (init 0)))) =
     [MakeForwardIndex ''cfg'', NewDataset 1, NewLDACollapsedVB 2 2 1 (1 / 100),
      Run 3 10, Save 3 ''lda-cvb0'', NewTopicModel ''lda-cvb0'',
      TopK 4 0 None, TopK 4 0 None, TopK 4 1 None, NewBLTermScorer 4,
      TopK 4 0 (Some 5), TopK 4 1 (Some 5),
      TopicDistribution 4 0, TopicDistribution 4 900] \<and>
   outcome (determine_topics (stub 1000) ''cfg'') 0 = (Inr (), 79200) \<and>
   (\<exists>w11 w12 prs w13.
      BLTermScorer (stub 1000) 4 w11 = (Inr 5, w12) \<and>
      top_k (stub 1000) 4 0 (Some 5) w12 = (Inr prs, w13))"
proof -
  note inst = pipeline_order [of "stub 1000" "''cfg''" 0]
  have ok: "determine_topics (stub 1000) ''cfg'' (init 0) =
     (Inr (), snd (determine_topics (stub 1000) ''cfg'' (init 0)))"
    by (simp add: stub_run)
  have calls: "stage_calls (trace (snd (determine_topics (stub 1000) ''cfg'' (init 0)))) =
     [MakeForwardIndex ''cfg'', NewDataset 1, NewLDACollapsedVB 2 2 1 (1 / 100),
      Run 3 10, Save 3 ''lda-cvb0'', NewTopicModel ''lda-cvb0'',
      TopK 4 0 None, TopK 4 0 None, TopK 4 1 None, NewBLTermScorer 4,
      TopK 4 0 (Some 5), TopK 4 1 (Some 5),
      TopicDistribution 4 0, TopicDistribution 4 900]"
    by (simp add: stub_run stage_calls_def)
  have out: "outcome (determine_topics (stub 1000) ''cfg'') 0 = (Inr (), 79200)"
    unfolding inst [THEN conjunct2, THEN conjunct1]
    by (simp add: op_then_def op_return_def stub_def tick_def)
  from inst [THEN conjunct2, THEN conjunct2, THEN spec, THEN spec, THEN mp, OF ok]
  obtain model scorer w11 w12 prs3 w13 where
    bl: "BLTermScorer (stub 1000) model w11 = (Inr scorer, w12)"
    and tk: "top_k (stub 1000) model 0 (Some scorer) w12 = (Inr prs3, w13)"
    by (elim exE conjE) (rule that; assumption)
  then have "BLTermScorer (stub 1000) 4 w11 = (Inr 5, w12)"
    "top_k (stub 1000) 4 0 (Some 5) w12 = (Inr prs3, w13)"
    by (simp_all add: stub_def tick_def)
  then have "\<exists>w11 w12 prs w13.
      BLTermScorer (stub 1000) 4 w11 = (Inr 5, w12) \<and>
      top_k (stub 1000) 4 0 (Some 5) w12 = (Inr prs, w13)"
    by blast
  with ok calls out show ?thesis by blast
qed



subsection \<open>The entry point\<close>

lemma py_round_small:
  assumes "\<bar>x\<bar> < 1 / 20000"
  shows "py_round x 4 = 0"
proof -
  define y where "y = x * 10 ^ 4"
  from assms have y: "- (1 / 2) < y" "y < 1 / 2"
    by (simp_all add: y_def abs_less_iff)
  have "round_half_even y = 0"
  proof (cases "0 \<le> y")
    case True
    with y have "\<lfloor>y\<rfloor> = 0" by (simp add: floor_eq_iff)
    with y show ?thesis by (simp add: round_half_even_def)
  next
    case False
    with y have "\<lfloor>y\<rfloor> = - 1" by (simp add: floor_eq_iff)
    with y show ?thesis by (simp add: round_half_even_def Let_def)
  qed
  then show ?thesis by (simp add: py_round_def y_def)
qed

lemma quiet_raise: "Q (Raise e) \<Longrightarrow> emits (quiet Q) (raise e)"
  by (rule emits_raise) (simp add: quiet_def)

lemma emits_if: "emits P a \<Longrightarrow> emits P b \<Longrightarrow> emits P (if c then a else b)"
  by simp

lemma argv0_quiet: "Q (Raise IndexError) \<Longrightarrow> emits (quiet Q) (argv0 argv)"
  by (cases argv) (simp_all add: argv0_def quiet_raise quiet_return)

lemma determine_topics_index_cfg:
  "emits (quiet (index_cfg_is cfg)) (determine_topics lib cfg)"
  unfolding determine_topics_def
  by (rule quiet_and_then quiet_print quiet_invoke term_texts_quiet | simp)+

lemma main_index_cfg:
  "emits (quiet (index_cfg_is ''moby_dick-config.toml'')) (main lib argv)"
  unfolding main_def
  by (rule quiet_and_then quiet_print quiet_invoke quiet_raise quiet_return emits_if
        argv0_quiet determine_topics_index_cfg | simp)+

lemma and_then_return_eq: "and_then (return x) f = f x"
  by (simp add: fun_eq_iff and_then_def return_def)

lemma main_usage:
  assumes "2 \<le> length argv"
  shows "main lib argv (init w) =
     (Inl (SystemExit 1),
      \<lparr>world = w,
       trace = [Print (Text ''got to main!!''), Print (Text (''Usage: '' @ hd argv)),
                Raise (SystemExit 1)]\<rparr>)"
proof -
  from assms obtain a b rest where "argv = a # b # rest"
    by (metis Suc_le_length_iff numeral_2_eq_2)
  then show ?thesis
    by (simp add: main_def argv0_def and_then_def print_def return_def raise_def init_def)
qed

lemma main_no_args:
  assumes "length argv = 1"
  shows "main lib argv =
     and_then (print (Text ''got to main!!'')) (\<lambda>_.
     and_then (invoke LogToStderr (log_to_stderr lib)) (\<lambda>_.
     and_then (invoke GetVersion (version lib)) (\<lambda>_.
     and_then (print (Text ''calling determine_topics() method ...'')) (\<lambda>_.
     and_then (determine_topics lib ''moby_dick-config.toml'') (\<lambda>_.
     and_then (invoke TimeTime (time lib)) (\<lambda>start_time.
     and_then (invoke TimeTime (time lib)) (\<lambda>now.
     print (Elapsed (py_round (now - start_time) 4)))))))))"
  using assms by (simp add: main_def and_then_return_eq)

text \<open>
  C9. In the entry point \<^verbatim>\<open>start_time\<close> is read only after \<^verbatim>\<open>determine_topics\<close> has
  returned. In every run that returns: both reads of the clock come after the last event
  of \<^verbatim>\<open>determine_topics\<close>, the second in the world the first one left, with nothing in
  between, and the number printed is their difference rounded to four digits. So it is
  0 whenever the two reads are less than 0.00005 apart, however long the work took.
\<close>

theorem elapsed_measures_two_adjacent_reads:
  fixes lib :: "('v, 'e, 'w) env"
  shows
  "\<forall>u s'. main lib [prog] (init w) = (Inr u, s') \<longrightarrow>
     (\<exists>s1 s2 t1 w1 t2 w2.
        determine_topics lib ''moby_dick-config.toml'' s1 = (Inr (), s2) \<and>
        time lib (world s2) = (Inr t1, w1) \<and>
        time lib w1 = (Inr t2, w2) \<and>
        world s' = w2 \<and>
        trace s' = trace s2 @
          [Call TimeTime, Call TimeTime, Print (Elapsed (py_round (t2 - t1) 4))] \<and>
        (\<bar>t2 - t1\<bar> < 1 / 20000 \<longrightarrow> py_round (t2 - t1) 4 = 0))"
proof (intro allI impI)
  fix u s'
  assume "main lib [prog] (init w) = (Inr u, s')"
  then obtain x1 s1 s2 t1 w1 t2 w2 where
    dt: "determine_topics lib ''moby_dick-config.toml'' s1 = (Inr x1, s2)"
    and t1: "time lib (world s2) = (Inr t1, w1)"
    and t2: "time lib w1 = (Inr t2, w2)"
    and s': "s' = s2\<lparr>world := w2,
        trace := trace s2 @ [Call TimeTime, Call TimeTime, Print (Elapsed (py_round (t2 - t1) 4))]\<rparr>"
    by (auto simp: main_no_args and_then_print and_then_Inr_iff invoke_Inr_iff print_iff)
  from dt t1 t2 s' py_round_small [of "t2 - t1"] show
    "\<exists>s1 s2 t1 w1 t2 w2.
        determine_topics lib ''moby_dick-config.toml'' s1 = (Inr (), s2) \<and>
        time lib (world s2) = (Inr t1, w1) \<and>
        time lib w1 = (Inr t2, w2) \<and>
        world s' = w2 \<and>
        trace s' = trace s2 @
          [Call TimeTime, Call TimeTime, Print (Elapsed (py_round (t2 - t1) 4))] \<and>
        (\<bar>t2 - t1\<bar> < 1 / 20000 \<longrightarrow> py_round (t2 - t1) 4 = 0)"
    by (intro exI [of _ s1] exI [of _ s2] exI [of _ t1] exI [of _ w1] exI [of _ t2]
        exI [of _ w2]) simp
qed

lemma stub_main_run:
  "main (stub 1000) [''topic_modelling.py''] (init 0) =
    (Inr (),
     \<lparr>world = 86400,
      trace =
       [Print (Text ''got to main!!''), Call LogToStderr, Call GetVersion,
        Print (Text ''calling determine_topics() method ...''),
        Print (Text ''making forward index ...''),
        Call (MakeForwardIndex ''moby_dick-config.toml''),
        Print (Text ''creating dset ...''), Call (NewDataset 1),
        Print (Text ''creating lda_inf ...''),
        Call (NewLDACollapsedVB 2 2 1 (1 / 100)),
        Print (Text ''1000 iterations of lda_inf ...''), Call (Run 3 10),
        Print (Text ''creating lda-cvb0 ...''), Call (Save 3 ''lda-cvb0''),
        Print (Text ''forming model ...''),
        Call (NewTopicModel ''lda-cvb0''),
        Print (Text ''topic id = 0 ...''), Call (TopK 4 0 None),
        Print (Text ''map term id 0 to strings ...''), Call (TopK 4 0 None),
        Call (TermText 1 10), Call (TermText 1 11),
        Print (Pairs [(110, 70), (111, 30)]),
        Print (Text ''map term id 1 to strings ...''), Call (TopK 4 1 None),
        Call (TermText 1 10), Call (TermText 1 11),
        Print (Pairs [(110, 70), (111, 30)]),
        Print (Text ''create scorer ...''), Call (NewBLTermScorer 4),
        Print (Text ''build fidx using BL Term Scorer, topic 0 ...''),
        Call (TopK 4 0 (Some 5)), Call (TermText 1 10),
        Call (TermText 1 11), Print (Pairs [(110, 70), (111, 30)]),
        Print (Text ''build fidx using BL Term Scorer, topic 1 ...''),
        Call (TopK 4 1 (Some 5)), Call (TermText 1 10),
        Call (TermText 1 11), Print (Pairs [(110, 70), (111, 30)]),
        Call (TopicDistribution 4 0), Print (Object 6),
        Call (TopicDistribution 4 900), Print (Object 6), Call TimeTime,
        Call TimeTime, Print (Elapsed 0)]\<rparr>)"
  by (simp add: main_def determine_topics_def and_then_def print_def invoke_def return_def
        stub_def tick_def init_def py_round_def round_half_even_def)

text \<open>
  Witness for C9: on the stub library the work takes 24 hours of its clock, the script
  returns, and the last line printed is an elapsed time of 0.
\<close>

theorem elapsed_measures_two_adjacent_reads_witness:
  "fst (main (stub 1000) [''topic_modelling.py''] (init 0)) = Inr () \<and>
   world (snd (main (stub 1000) [''topic_modelling.py''] (init 0))) = 86400 \<and>
   (\<exists>(s2 :: (nat, string, real) state) t1 w1 t2.
      time (stub 1000) (world s2) = (Inr t1, w1) \<and>
      time (stub 1000) w1 = (Inr t2, 86400) \<and>
      py_round (t2 - t1) 4 = 0 \<and>
      trace (snd (main (stub 1000) [''topic_modelling.py''] (init 0))) =
        trace s2 @ [Call TimeTime, Call TimeTime, Print (Elapsed (py_round (t2 - t1) 4))])"
proof -
  let ?s = "snd (main (stub 1000) [''topic_modelling.py''] (init 0))"
  have run: "main (stub 1000) [''topic_modelling.py''] (init 0) = (Inr (), ?s)"
    by (simp add: stub_main_run)
  have w: "world ?s = 86400"
    by (simp add: stub_main_run)
  note elapsed_measures_two_adjacent_reads
    [of "stub 1000" "''topic_modelling.py''" 0, THEN spec, THEN spec, THEN mp, OF run]
  then obtain s2 :: "(nat, string, real) state" and t1 w1 t2 w2 where
    t: "time (stub 1000) (world s2) = (Inr t1, w1)" "time (stub 1000) w1 = (Inr t2, w2)"
      "world ?s = w2"
    and tr: "trace ?s = trace s2 @
      [Call TimeTime, Call TimeTime, Print (Elapsed (py_round (t2 - t1) 4))]"
    and small: "\<bar>t2 - t1\<bar> < 1 / 20000 \<longrightarrow> py_round (t2 - t1) 4 = 0"
    by (elim exE conjE) (rule that; assumption)
  from t have "t2 = t1" by (auto simp: stub_def)
  with small have z: "py_round (t2 - t1) 4 = 0" by simp
  have ok: "fst (main (stub 1000) [''topic_modelling.py''] (init 0)) = Inr ()"
    by (simp add: stub_main_run)
  from t w have "time (stub 1000) w1 = (Inr t2, 86400)" by simp
  with t(1) z tr have "\<exists>(s2 :: (nat, string, real) state) t1 w1 t2.
      time (stub 1000) (world s2) = (Inr t1, w1) \<and>
      time (stub 1000) w1 = (Inr t2, 86400) \<and>
      py_round (t2 - t1) 4 = 0 \<and>
      trace ?s = trace s2 @ [Call TimeTime, Call TimeTime, Print (Elapsed (py_round (t2 - t1) 4))]"
    by blast
  with ok w show ?thesis by blast
qed

text \<open>
  C10. With one or more command-line arguments the script prints the usage line and
  exits with status 1: no library operation is invoked and the world is untouched. With
  none, the arguments play no part: once logging is set up and the version read, what
  runs is \<^verbatim>\<open>determine_topics\<close> on \<^verbatim>\<open>moby_dick-config.toml\<close>, followed by the two clock
  reads. Whatever the arguments, a forward index is only ever made from
  \<^verbatim>\<open>moby_dick-config.toml\<close>.
\<close>

theorem usage_exit_or_hardcoded_config:
  fixes lib :: "('v, 'e, 'w) env"
  shows
  "(2 \<le> length argv \<longrightarrow>
      main lib argv (init w) =
        (Inl (SystemExit 1),
         \<lparr>world = w,
          trace = [Print (Text ''got to main!!''), Print (Text (''Usage: '' @ hd argv)),
                   Raise (SystemExit 1)]\<rparr>) \<and>
      exit_status (fst (main lib argv (init w))) = 1) \<and>
   (length argv = 1 \<longrightarrow>
      main lib argv (init w) = main lib [''topic_modelling.py''] (init w) \<and>
      (\<forall>w1 v w2.
         log_to_stderr lib w = (Inr (), w1) \<and> version lib w1 = (Inr v, w2) \<longrightarrow>
         main lib argv (init w) =
           and_then (determine_topics lib ''moby_dick-config.toml'') (\<lambda>_.
           and_then (invoke TimeTime (time lib)) (\<lambda>start_time.
           and_then (invoke TimeTime (time lib)) (\<lambda>now.
           print (Elapsed (py_round (now - start_time) 4)))))
           \<lparr>world = w2,
            trace = [Print (Text ''got to main!!''), Call LogToStderr, Call GetVersion,
                     Print (Text ''calling determine_topics() method ...'')]\<rparr>)) \<and>
   (\<forall>c. Call (MakeForwardIndex c) \<in> set (trace (snd (main lib argv (init w)))) \<longrightarrow>
      c = ''moby_dick-config.toml'')"
proof (intro conjI allI impI)
  assume "2 \<le> length argv"
  then show "main lib argv (init w) =
        (Inl (SystemExit 1),
         \<lparr>world = w,
          trace = [Print (Text ''got to main!!''), Print (Text (''Usage: '' @ hd argv)),
                   Raise (SystemExit 1)]\<rparr>)"
    by (rule main_usage)
  then show "exit_status (fst (main lib argv (init w))) = 1"
    by simp
next
  assume "length argv = 1"
  then show "main lib argv (init w) = main lib [''topic_modelling.py''] (init w)"
    by (simp add: main_no_args)
next
  fix w1 v w2
  assume "length argv = 1"
    and "log_to_stderr lib w = (Inr (), w1) \<and> version lib w1 = (Inr v, w2)"
  then show "main lib argv (init w) =
           and_then (determine_topics lib ''moby_dick-config.toml'') (\<lambda>_.
           and_then (invoke TimeTime (time lib)) (\<lambda>start_time.
           and_then (invoke TimeTime (time lib)) (\<lambda>now.
           print (Elapsed (py_round (now - start_time) 4)))))
           \<lparr>world = w2,
            trace = [Print (Text ''got to main!!''), Call LogToStderr, Call GetVersion,
                     Print (Text ''calling determine_topics() method ...'')]\<rparr>"
    by (simp add: main_no_args and_then_print and_then_invoke_Inr init_def)
next
  fix c
  assume mem: "Call (MakeForwardIndex c) \<in> set (trace (snd (main lib argv (init w))))"
  obtain r s' where run: "main lib argv (init w) = (r, s')"
    by (cases "main lib argv (init w)")
  from emitsD [OF main_index_cfg run]
  have "list_all (index_cfg_is ''moby_dick-config.toml'') (trace s')"
    by (auto simp: trace_init quiet_def)
  moreover from mem have "Call (MakeForwardIndex c) \<in> set (trace s')"
    by (simp add: run)
  ultimately
  have "index_cfg_is ''moby_dick-config.toml'' (Call (MakeForwardIndex c) :: ('v, 'e) event)"
    unfolding list_all_iff by blast
  then show "c = ''moby_dick-config.toml''" by simp
qed

text \<open>
  Witness for C10: with an argument the stub library is never called; without one the
  index is made from \<^verbatim>\<open>moby_dick-config.toml\<close>.
\<close>

theorem usage_exit_or_hardcoded_config_witness:
  "main (stub 1000) [''topic_modelling.py'', ''other-config.toml''] (init 0) =
     (Inl (SystemExit 1),
      \<lparr>world = 0,
       trace = [Print (Text ''got to main!!''), Print (Text ''Usage: topic_modelling.py''),
                Raise (SystemExit 1)]\<rparr>) \<and>
   exit_status (fst (main (stub 1000) [''topic_modelling.py'', ''other-config.toml''] (init 0))) = 1 \<and>
   main (stub 1000) [''other-config.toml''] (init 0) =
     main (stub 1000) [''topic_modelling.py''] (init 0) \<and>
   Call (MakeForwardIndex ''moby_dick-config.toml'')
     \<in> set (trace (snd (main (stub 1000) [''other-config.toml''] (init 0))))"
proof -
  have a: "main (stub 1000) [''topic_modelling.py'', ''other-config.toml''] (init 0) =
     (Inl (SystemExit 1),
      \<lparr>world = 0,
       trace = [Print (Text ''got to main!!''), Print (Text ''Usage: topic_modelling.py''),
                Raise (SystemExit 1)]\<rparr>) \<and>
   exit_status (fst (main (stub 1000) [''topic_modelling.py'', ''other-config.toml''] (init 0))) = 1"
    using usage_exit_or_hardcoded_config
      [of "[''topic_modelling.py'', ''other-config.toml'']" "stub 1000" 0]
    by simp
  have b: "main (stub 1000) [''other-config.toml''] (init 0) =
     main (stub 1000) [''topic_modelling.py''] (init 0)"
    using usage_exit_or_hardcoded_config [of "[''other-config.toml'']" "stub 1000" 0]
    by simp
  have "Call (MakeForwardIndex ''moby_dick-config.toml'')
     \<in> set (trace (snd (main (stub 1000) [''other-config.toml''] (init 0))))"
    unfolding b by (simp add: stub_main_run)
  with a b show ?thesis by simp
qed

section \<open>Reasoning about the components\<close>

lemma length_insert_ranked: "length (insert_ranked a bs) = Suc (length bs)"
  by (induction bs) simp_all

lemma length_ranked: "length (ranked as) = length as"
  by (induction as) (simp_all add: length_insert_ranked)

lemma set_insert_ranked: "set (insert_ranked a bs) = insert a (set bs)"
  by (induction bs) auto

lemma set_ranked: "set (ranked as) = set as"
  by (induction as) (simp_all add: set_insert_ranked)

lemma ranks_before_total: "ranks_before a b \<or> ranks_before b a"
  by (auto simp: ranks_before_def)

lemma ranks_before_trans: "ranks_before a b \<Longrightarrow> ranks_before b c \<Longrightarrow> ranks_before a c"
  by (auto simp: ranks_before_def)

lemma sorted_insert_ranked:
  "sorted_wrt ranks_before bs \<Longrightarrow> sorted_wrt ranks_before (insert_ranked a bs)"
proof (induction bs)
  case Nil
  show ?case by simp
next
  case (Cons b bs)
  show ?case
  proof (cases "ranks_before a b")
    case True
    with Cons.prems show ?thesis
      by (auto intro: ranks_before_trans)
  next
    case False
    then have "ranks_before b a" using ranks_before_total by blast
    with Cons False show ?thesis
      by (auto simp: set_insert_ranked)
  qed
qed

lemma sorted_ranked: "sorted_wrt ranks_before (ranked as)"
  by (induction as) (simp_all add: sorted_insert_ranked)

lemma distinct_fst_ranked: "distinct (map fst (ranked as)) = distinct (map fst as)"
proof -
  have ins: "distinct (map fst (insert_ranked a bs)) \<longleftrightarrow>
      fst a \<notin> fst ` set bs \<and> distinct (map fst bs)" for a bs
    by (induction bs) (auto simp: set_insert_ranked)
  show ?thesis
    by (induction as) (simp_all add: ins set_ranked)
qed



subsection \<open>\<^verbatim>\<open>topic_distribution(900)\<close>\<close>

lemma fails_at_900_and_then:
  fixes m :: "('a, 'v, 'e, 'w) stmt" and f :: "'a \<Rightarrow> ('b, 'v, 'e, 'w) stmt"
  assumes "emits (fails_at_900 mo exc) m" and "\<And>x. emits (fails_at_900 mo exc) (f x)"
  shows "emits (fails_at_900 mo exc) (and_then m f)"
proof (rule emits_and_then [OF assms])
  fix x :: 'a and a b :: "('v, 'e) event list" and r :: "'e exn + 'b"
  assume "fails_at_900 mo exc (Inr x) a" "fails_at_900 mo exc r b"
  then show "fails_at_900 mo exc r (a @ b)"
    unfolding fails_at_900_def by auto
next
  fix e :: "'e exn" and a :: "('v, 'e) event list"
  assume "fails_at_900 mo exc (Inl e :: 'e exn + 'a) a"
  then show "fails_at_900 mo exc (Inl e :: 'e exn + 'b) a"
    unfolding fails_at_900_def by auto
qed

lemma fails_at_900_print: "emits (fails_at_900 mo exc) (print p)"
  by (rule emits_print) (simp add: fails_at_900_def)

lemma fails_at_900_return: "emits (fails_at_900 mo exc) (return x)"
  by (rule emits_return) (simp add: fails_at_900_def)

lemma fails_at_900_other:
  "(\<And>mdl. c \<noteq> TopicDistribution mdl 900) \<Longrightarrow> emits (fails_at_900 mo exc) (invoke c f)"
  by (rule emits_invoke) (auto simp: fails_at_900_def)

lemma fails_at_900_here:
  fixes lib :: "('v, 'e, 'w) env"
  assumes "answers_topic_distribution lib mo exc"
  shows "emits (fails_at_900 mo exc)
           (invoke (TopicDistribution mdl 900) (topic_distribution lib mdl 900))"
  unfolding emits_def
proof
  fix s :: "('v, 'e, 'w) state"
  let ?f = "topic_distribution lib mdl 900"
  obtain r w' where f: "?f (world s) = (r, w')" by (cases "?f (world s)")
  have "uint (D (mo mdl)) \<le> 900 \<Longrightarrow> r = Inl (Other (exc OutOfRangeError))"
  proof -
    assume "uint (D (mo mdl)) \<le> 900"
    then have "query_topic_distribution (mo mdl) 900 = Inl OutOfRangeError"
      by (simp add: query_topic_distribution_def)
    with assms have "fst (?f (world s)) = Inl (Other (exc OutOfRangeError))"
      unfolding answers_topic_distribution_def
      by (metis (mono_tags, lifting) old.sum.simps(5))
    with f show ?thesis by simp
  qed
  with f show "\<exists>evs. trace (snd (invoke (TopicDistribution mdl 900) ?f s)) = trace s @ evs \<and>
      fails_at_900 mo exc (fst (invoke (TopicDistribution mdl 900) ?f s)) evs"
    by (cases r) (auto simp: invoke_def fails_at_900_def)
qed

lemma term_texts_fails_at_900: "emits (fails_at_900 mo exc) (term_texts lib fidx prs)"
  by (induction prs)
    (auto intro!: fails_at_900_and_then fails_at_900_return fails_at_900_other)

lemma determine_topics_fails_at_900:
  assumes "answers_topic_distribution lib mo exc"
  shows "emits (fails_at_900 mo exc) (determine_topics lib cfg)"
  unfolding determine_topics_def
  by (rule fails_at_900_and_then fails_at_900_print fails_at_900_here [OF assms]
        fails_at_900_other term_texts_fails_at_900 | simp)+

section \<open>The claims about the components\<close>


lemma small_model_well_formed: "well_formed small_model"
  by (simp add: well_formed_def dimensions_ok_def distribution_def small_model_def)

lemma nth_distribution:
  "list_all P xs \<Longrightarrow> n < length xs \<Longrightarrow> P (xs ! n)"
  by (simp add: list_all_length)

text \<open>
  C5. \<^verbatim>\<open>topic_distribution(doc_id)\<close> answers K probabilities when \<^verbatim>\<open>doc_id\<close> is in [0, D),
  and fails, with \<^verbatim>\<open>OutOfRangeError\<close> and nothing else, exactly when it is not. So, run
  against a library whose \<^verbatim>\<open>topic_distribution\<close> is this one, a run of the script that
  gets to its call \<^verbatim>\<open>topic_distribution(900)\<close> on a model of at most 900 documents ends
  with that \<^verbatim>\<open>OutOfRangeError\<close>.
\<close>

theorem topic_distribution_range:
  fixes lib :: "('v, 'e, 'w) env"
  shows
  "(well_formed m \<longrightarrow>
      (0 \<le> d \<and> d < uint (D m) \<longrightarrow>
         (\<exists>ps. query_topic_distribution m d = Inr ps \<and> length ps = unat (K m) \<and>
            distribution ps)) \<and>
      (query_topic_distribution m d = Inl OutOfRangeError \<longleftrightarrow> \<not> (0 \<le> d \<and> d < uint (D m))) \<and>
      (\<forall>er. query_topic_distribution m d = Inl er \<longrightarrow> er = OutOfRangeError)) \<and>
   (answers_topic_distribution lib mo exc \<longrightarrow>
      (\<forall>mdl. Call (TopicDistribution mdl 900)
               \<in> set (trace (snd (determine_topics lib cfg (init w)))) \<and>
             uint (D (mo mdl)) \<le> 900 \<longrightarrow>
         fst (determine_topics lib cfg (init w)) = Inl (Other (exc OutOfRangeError))))"
proof (intro conjI impI allI)
  assume wf: "well_formed m" and d: "0 \<le> d \<and> d < uint (D m)"
  then have n: "nat d < length (theta m)"
    by (simp add: well_formed_def dimensions_ok_def nat_less_iff)
  from wf have "list_all (\<lambda>row. length row = unat (K m)) (theta m)"
    "list_all distribution (theta m)"
    by (simp_all add: well_formed_def dimensions_ok_def)
  then have "length (theta m ! nat d) = unat (K m)" "distribution (theta m ! nat d)"
    using n by (simp_all add: list_all_length)
  with d show "\<exists>ps. query_topic_distribution m d = Inr ps \<and> length ps = unat (K m) \<and>
      distribution ps"
    by (simp add: query_topic_distribution_def)
next
  show "query_topic_distribution m d = Inl OutOfRangeError \<longleftrightarrow> \<not> (0 \<le> d \<and> d < uint (D m))"
    by (simp add: query_topic_distribution_def)
next
  fix er
  assume "query_topic_distribution m d = Inl er"
  then show "er = OutOfRangeError"
    by (simp add: query_topic_distribution_def split: if_splits)
next
  fix mdl
  assume lib: "answers_topic_distribution lib mo exc"
    and call: "Call (TopicDistribution mdl 900)
               \<in> set (trace (snd (determine_topics lib cfg (init w)))) \<and>
             uint (D (mo mdl)) \<le> 900"
  obtain r s' where run: "determine_topics lib cfg (init w) = (r, s')"
    by (cases "determine_topics lib cfg (init w)")
  from emitsD [OF determine_topics_fails_at_900 [OF lib] run]
  have "fails_at_900 mo exc r (trace s')"
    by (auto simp: trace_init)
  with call show "fst (determine_topics lib cfg (init w)) = Inl (Other (exc OutOfRangeError))"
    unfolding fails_at_900_def run by auto
qed

text \<open>
  Witness for C5: document 1 of the small model has a distribution over its two topics,
  document 900 is out of range; the stub library, which answers as a model of 900
  documents does, ends the script with the error of that call.
\<close>

theorem topic_distribution_range_witness:
  "well_formed small_model \<and>
   (\<exists>ps. query_topic_distribution small_model 1 = Inr ps \<and> length ps = 2 \<and> distribution ps) \<and>
   query_topic_distribution small_model 900 = Inl OutOfRangeError \<and>
   answers_topic_distribution (stub 900) (\<lambda>_. small_model\<lparr>D := 900\<rparr>)
     (\<lambda>_. ''OutOfRangeError'') \<and>
   fst (determine_topics (stub 900) ''cfg'' (init 0)) = Inl (Other ''OutOfRangeError'')"
proof -
  note inst = topic_distribution_range
    [of small_model _ "stub 900" "\<lambda>_. small_model\<lparr>D := 900\<rparr>" "\<lambda>_. ''OutOfRangeError''" "''cfg''" 0]
  have d: "uint (D small_model) = 2" "unat (K small_model) = 2"
    by (simp_all add: small_model_def)
  from inst [of 1] small_model_well_formed d
  have one: "\<exists>ps. query_topic_distribution small_model 1 = Inr ps \<and> length ps = 2 \<and>
      distribution ps"
    by simp
  from inst [of 900] small_model_well_formed d
  have far: "query_topic_distribution small_model 900 = Inl OutOfRangeError"
    by simp
  have lib: "answers_topic_distribution (stub 900) (\<lambda>_. small_model\<lparr>D := 900\<rparr>)
      (\<lambda>_. ''OutOfRangeError'')"
    by (simp add: answers_topic_distribution_def query_topic_distribution_def stub_def
        tick_def)
  have "Call (TopicDistribution 4 900)
      \<in> set (trace (snd (determine_topics (stub 900) ''cfg'' (init 0))))"
    by (simp add: stub_run_900)
  moreover have "uint (D (small_model\<lparr>D := 900\<rparr>)) \<le> 900"
    by simp
  ultimately
  have "fst (determine_topics (stub 900) ''cfg'' (init 0)) = Inl (Other ''OutOfRangeError'')"
    using inst [of 0] lib by blast
  with small_model_well_formed one far lib show ?thesis by simp
qed




lemma strictly_ranked:
  "sorted_wrt ranks_before xs \<Longrightarrow> distinct (map fst xs) \<Longrightarrow>
   sorted_wrt (\<lambda>a b. snd b < snd a \<or> (snd a = snd b \<and> fst a < fst b)) xs"
proof (induction xs)
  case Nil
  show ?case by simp
next
  case (Cons x xs)
  have "snd y < snd x \<or> (snd x = snd y \<and> fst x < fst y)" if "y \<in> set xs" for y
  proof -
    from Cons.prems that have "ranks_before x y" "fst x \<noteq> fst y"
      by auto
    then show ?thesis
      by (auto simp: ranks_before_def)
  qed
  with Cons show ?case by simp
qed

lemma rest_ranks_after:
  assumes "sorted_wrt P xs" and "a \<in> set (take k xs)" and "b \<in> set xs" and "b \<notin> set (take k xs)"
  shows "P a b"
proof -
  from assms(3,4) have "b \<in> set (drop k xs)"
    by (metis Un_iff append_take_drop_id set_append)
  moreover from assms(1) have "sorted_wrt P (take k xs @ drop k xs)"
    by simp
  ultimately show ?thesis
    using assms(2) unfolding sorted_wrt_append by blast
qed

text \<open>
  C4. For a topic in [0, K) and any \<open>k\<close>, \<^verbatim>\<open>top_k\<close> answers min(k, V) pairs of a term id
  below V and the scorer's score of that term, sorted by descending score with ties in
  ascending term id, and none for \<open>k = 0\<close>; every term left out ranks after every term
  answered. For a topic outside [0, K) it fails with \<^verbatim>\<open>OutOfRangeError\<close>.
\<close>

theorem top_k_ranked:
  "(0 \<le> topic_id \<and> topic_id < uint (K m) \<longrightarrow>
      (\<exists>prs. query_top_k m sc topic_id k = Inr prs \<and>
         length prs = min k (unat (V m)) \<and>
         sorted_wrt (\<lambda>a b. snd b < snd a \<or> (snd a = snd b \<and> fst a < fst b)) prs \<and>
         (\<forall>a \<in> set prs. fst a < unat (V m) \<and> snd a = sc m (nat topic_id) (fst a)) \<and>
         (\<forall>t < unat (V m). (t, sc m (nat topic_id) t) \<notin> set prs \<longrightarrow>
            (\<forall>a \<in> set prs. ranks_before a (t, sc m (nat topic_id) t))) \<and>
         (k = 0 \<longrightarrow> prs = []))) \<and>
   (\<not> (0 \<le> topic_id \<and> topic_id < uint (K m)) \<longrightarrow>
      query_top_k m sc topic_id k = Inl OutOfRangeError)"
proof (intro conjI impI)
  let ?all = "map (\<lambda>t. (t, sc m (nat topic_id) t)) [0..<unat (V m)]"
  let ?prs = "take k (ranked ?all)"
  assume valid: "0 \<le> topic_id \<and> topic_id < uint (K m)"
  then have res: "query_top_k m sc topic_id k = Inr ?prs"
    by (simp add: query_top_k_def)
  have len: "length ?prs = min k (unat (V m))"
    by (simp add: length_ranked)
  have "distinct (map fst ?all)"
    by (simp add: comp_def)
  then have "distinct (map fst (ranked ?all))"
    by (simp only: distinct_fst_ranked)
  then have "distinct (map fst ?prs)"
    by (simp add: take_map [symmetric])
  moreover have "sorted_wrt ranks_before ?prs"
    by (rule sorted_wrt_take) (rule sorted_ranked)
  ultimately have
    strict: "sorted_wrt (\<lambda>a b. snd b < snd a \<or> (snd a = snd b \<and> fst a < fst b)) ?prs"
    by (rule strictly_ranked [rotated])
  have elems: "\<forall>a \<in> set ?prs. fst a < unat (V m) \<and> snd a = sc m (nat topic_id) (fst a)"
  proof
    fix a
    assume "a \<in> set ?prs"
    then have "a \<in> set (ranked ?all)" by (rule in_set_takeD)
    then show "fst a < unat (V m) \<and> snd a = sc m (nat topic_id) (fst a)"
      by (auto simp: set_ranked)
  qed
  have top: "\<forall>t < unat (V m). (t, sc m (nat topic_id) t) \<notin> set ?prs \<longrightarrow>
      (\<forall>a \<in> set ?prs. ranks_before a (t, sc m (nat topic_id) t))"
  proof (intro allI impI ballI)
    fix t a
    assume "t < unat (V m)" and out: "(t, sc m (nat topic_id) t) \<notin> set ?prs"
      and a: "a \<in> set ?prs"
    then have "(t, sc m (nat topic_id) t) \<in> set (ranked ?all)"
      by (simp add: set_ranked)
    with sorted_ranked a show "ranks_before a (t, sc m (nat topic_id) t)"
      using out by (rule rest_ranks_after)
  qed
  from res len strict elems top
  show "\<exists>prs. query_top_k m sc topic_id k = Inr prs \<and>
         length prs = min k (unat (V m)) \<and>
         sorted_wrt (\<lambda>a b. snd b < snd a \<or> (snd a = snd b \<and> fst a < fst b)) prs \<and>
         (\<forall>a \<in> set prs. fst a < unat (V m) \<and> snd a = sc m (nat topic_id) (fst a)) \<and>
         (\<forall>t < unat (V m). (t, sc m (nat topic_id) t) \<notin> set prs \<longrightarrow>
            (\<forall>a \<in> set prs. ranks_before a (t, sc m (nat topic_id) t))) \<and>
         (k = 0 \<longrightarrow> prs = [])"
    by (intro exI [of _ ?prs]) simp
next
  assume "\<not> (0 \<le> topic_id \<and> topic_id < uint (K m))"
  then show "query_top_k m sc topic_id k = Inl OutOfRangeError"
    by (simp add: query_top_k_def)
qed

lemma small_model_top_2:
  "query_top_k small_model default_scorer 0 2 = Inr [(0, 1 / 2), (1, 1 / 4)]"
proof -
  have "[0..<3] = [0, 1, 2 :: nat]"
    by (simp add: upt_rec)
  then show ?thesis
    by (simp add: query_top_k_def small_model_def default_scorer_def ranks_before_def)
qed

text \<open>
  Witness for C4: topic 0 of the small model scores the terms 1/2, 1/4, 1/4; the top two
  are term 0 and, of the tied terms, term 1; topic 2 is out of range.
\<close>

theorem top_k_ranked_witness:
  "query_top_k small_model default_scorer 0 2 = Inr [(0, 1 / 2), (1, 1 / 4)] \<and>
   length [(0 :: nat, 1 / 2 :: real), (1, 1 / 4)] = min 2 (unat (V small_model)) \<and>
   ranks_before (1, 1 / 4) (2, default_scorer small_model 0 2) \<and>
   query_top_k small_model default_scorer 0 0 = Inr [] \<and>
   query_top_k small_model default_scorer 2 2 = Inl OutOfRangeError"
proof -
  have k: "uint (K small_model) = 2" and v: "unat (V small_model) = 3"
    by (simp_all add: small_model_def)
  from top_k_ranked [of 0 small_model default_scorer 2] k
  have a: "ranks_before (1, 1 / 4) (2, default_scorer small_model 0 2)"
    by (simp add: small_model_top_2 v)
  from top_k_ranked [of 0 small_model default_scorer 0] k
  have b: "query_top_k small_model default_scorer 0 0 = Inr []"
    by auto
  from top_k_ranked [of 2 small_model default_scorer 2] k
  have c: "query_top_k small_model default_scorer 2 2 = Inl OutOfRangeError"
    by simp
  from a b c show ?thesis
    by (simp add: small_model_top_2 v)
qed

end
